theory Spec2Isabelle
  imports Complex_Main "HOL-Library.Char_ord" "HOL-Library.List_Lexorder"
begin

section \<open>Values the sensor receives\<close>

text \<open>
  The sensor of \<^verbatim>\<open>src/sensor.py\<close> reads a JSON document from the OpenSky API.
  A parsed JSON value is one of Python's \<^verbatim>\<open>None\<close>, \<^verbatim>\<open>bool\<close>, number, \<^verbatim>\<open>str\<close>,
  \<^verbatim>\<open>list\<close> or \<^verbatim>\<open>dict\<close>. Numbers are modelled as reals: the code only
  compares them, and comparison of finite floats and integers is exact (NaN and the
  infinities are outside the model). A \<^verbatim>\<open>dict\<close> is kept as its items in insertion
  order, keys distinct.
\<close>

datatype jval =
    JNull
  | JBool bool
  | JNum real
  | JStr string
  | JArr "jval list"
  | JObj "(string \<times> jval) list"

text \<open>The exceptions the code can raise.\<close>

datatype pyerr =
    KeyError
  | AttributeError
  | TypeError
  | AssertionError
  | ZeroDivisionError
  | RequestException

text \<open>Python's truth value of a parsed JSON value (\<^verbatim>\<open>if states:\<close>,
  \<^verbatim>\<open>or flight.get(ATTR_ON_GROUND)\<close>).\<close>

fun truthy :: "jval \<Rightarrow> bool" where
  "truthy JNull = False"
| "truthy (JBool b) = b"
| "truthy (JNum x) = (x \<noteq> 0)"
| "truthy (JStr s) = (s \<noteq> [])"
| "truthy (JArr xs) = (xs \<noteq> [])"
| "truthy (JObj kvs) = (kvs \<noteq> [])"

text \<open>Iterating a value (\<^verbatim>\<open>for state in states\<close>, \<^verbatim>\<open>zip(OPENSKY_API_FIELDS, state)\<close>):
  a list yields its elements, a string its characters as one-character strings, a dict
  its keys; anything else raises \<^verbatim>\<open>TypeError\<close>.\<close>

fun py_iter :: "jval \<Rightarrow> pyerr + jval list" where
  "py_iter (JArr xs) = Inr xs"
| "py_iter (JStr s) = Inr (map (\<lambda>c. JStr [c]) s)"
| "py_iter (JObj kvs) = Inr (map (\<lambda>kv. JStr (fst kv)) kvs)"
| "py_iter JNull = Inl TypeError"
| "py_iter (JBool b) = Inl TypeError"
| "py_iter (JNum x) = Inl TypeError"

text \<open>\<^verbatim>\<open>str.strip()\<close>: whitespace is removed at both ends. A string is a list of
  8-bit characters here, callsigns being ASCII; the whitespace characters are the ASCII
  ones of \<^verbatim>\<open>str.isspace\<close>. Only a \<^verbatim>\<open>str\<close> has the method.\<close>

definition isspace :: "char \<Rightarrow> bool" where
  "isspace c = (c \<in> set [CHR 0x09, CHR 0x0A, CHR 0x0B, CHR 0x0C, CHR 0x0D,
                          CHR 0x1C, CHR 0x1D, CHR 0x1E, CHR 0x1F, CHR 0x20])"

definition strip :: "string \<Rightarrow> string" where
  "strip s = rev (dropWhile isspace (rev (dropWhile isspace s)))"

fun py_strip :: "jval \<Rightarrow> pyerr + string" where
  "py_strip (JStr s) = Inr (strip s)"
| "py_strip v = Inl AttributeError"

text \<open>\<^verbatim>\<open>altitude > self._altitude\<close> with a float on the right: defined for numbers
  (a \<^verbatim>\<open>bool\<close> is the integer 0 or 1), \<^verbatim>\<open>TypeError\<close> for everything else.\<close>

fun py_gt :: "jval \<Rightarrow> real \<Rightarrow> pyerr + bool" where
  "py_gt (JNum a) x = Inr (a > x)"
| "py_gt (JBool b) x = Inr ((if b then 1 else 0) > x)"
| "py_gt v x = Inl TypeError"

section \<open>Constants of the module\<close>

abbreviation ATTR_ICAO24 :: string where "ATTR_ICAO24 \<equiv> ''icao24''"
abbreviation ATTR_CALLSIGN :: string where "ATTR_CALLSIGN \<equiv> ''callsign''"
abbreviation ATTR_ALTITUDE :: string where "ATTR_ALTITUDE \<equiv> ''altitude''"
abbreviation ATTR_ON_GROUND :: string where "ATTR_ON_GROUND \<equiv> ''on_ground''"
abbreviation ATTR_LONGITUDE :: string where "ATTR_LONGITUDE \<equiv> ''longitude''"
abbreviation ATTR_LATITUDE :: string where "ATTR_LATITUDE \<equiv> ''latitude''"
abbreviation ATTR_STATES :: string where "ATTR_STATES \<equiv> ''states''"
abbreviation EVENT_OPENSKY_ENTRY :: string where "EVENT_OPENSKY_ENTRY \<equiv> ''opensky_entry''"
abbreviation EVENT_OPENSKY_EXIT :: string where "EVENT_OPENSKY_EXIT \<equiv> ''opensky_exit''"

definition OPENSKY_API_FIELDS :: "string list" where
  "OPENSKY_API_FIELDS =
     [ATTR_ICAO24, ATTR_CALLSIGN, ''origin_country'', ''time_position'', ''time_velocity'',
      ATTR_LONGITUDE, ATTR_LATITUDE, ATTR_ALTITUDE, ATTR_ON_GROUND, ''velocity'',
      ''heading'', ''vertical_rate'', ''sensors'']"

text \<open>A flight is the dict \<^verbatim>\<open>dict(zip(OPENSKY_API_FIELDS, state))\<close>;
  \<^verbatim>\<open>flight.get(k)\<close> is \<^verbatim>\<open>None\<close> for an absent key and for a null value alike.\<close>

type_synonym flight = "string \<rightharpoonup> jval"

definition dget :: "flight \<Rightarrow> string \<Rightarrow> jval" where
  "dget d k = (case d k of None \<Rightarrow> JNull | Some v \<Rightarrow> v)"

section \<open>The bounding box\<close>

text \<open>\<^verbatim>\<open>math.radians\<close>, \<^verbatim>\<open>math.degrees\<close> and the float operator \<^verbatim>\<open>%\<close>
  (the result has the sign of the divisor), over the reals: the model is the exact
  arithmetic that the floating-point code approximates.\<close>

definition radians :: "real \<Rightarrow> real" where
  "radians x = x * pi / 180"

definition degrees :: "real \<Rightarrow> real" where
  "degrees x = x * 180 / pi"

definition py_mod :: "real \<Rightarrow> real \<Rightarrow> real" where
  "py_mod x y = x - y * of_int \<lfloor>x / y\<rfloor>"

text \<open>\<^verbatim>\<open>OpenSkySensor._get_bbox\<close>, reading \<^verbatim>\<open>self._latitude\<close>,
  \<^verbatim>\<open>self._longitude\<close> and \<^verbatim>\<open>self._radius\<close> (metres). The result is
  \<open>(lat_min, lon_min, lat_max, lon_max)\<close> in degrees. Over the reals the division by
  \<open>parallel_radius\<close> is undefined exactly at the poles, where the model raises.\<close>

definition get_bbox :: "real \<Rightarrow> real \<Rightarrow> real \<Rightarrow> pyerr + (real \<times> real \<times> real \<times> real)" where
  "get_bbox latitude longitude radius =
     (let half_side_in_km = radius / 1000 in
      if half_side_in_km > 0 then
        (let lat = radians latitude;
             lon = radians longitude;
             approx_earth_radius = 6371;
             parallel_radius = approx_earth_radius * cos lat;
             lat_min = lat - half_side_in_km / approx_earth_radius;
             lat_min = max (- pi / 2) lat_min;
             lat_max = lat + half_side_in_km / approx_earth_radius;
             lat_max = min (pi / 2) lat_max
         in if parallel_radius = 0 then Inl ZeroDivisionError
            else
              (let lon_min = lon - half_side_in_km / parallel_radius;
                   lon_min = (if lon_min < - pi then pi + py_mod lon_min (- pi) else lon_min);
                   lon_max = lon + half_side_in_km / parallel_radius;
                   lon_max = (if lon_max > pi then pi - py_mod lon_max pi else lon_max)
               in Inr (degrees lat_min, degrees lon_min, degrees lat_max, degrees lon_max)))
      else Inl AssertionError)"

text \<open>Membership of a point in a box \<open>(lat_min, lon_min, lat_max, lon_max)\<close>, with the
  reading of the specification: a box whose western edge lies east of its eastern edge
  crosses the antimeridian.\<close>

definition in_box :: "real \<times> real \<times> real \<times> real \<Rightarrow> real \<Rightarrow> real \<Rightarrow> bool" where
  "in_box b la lo =
     (case b of (lat_min, lon_min, lat_max, lon_max) \<Rightarrow>
        lat_min \<le> la \<and> la \<le> lat_max \<and>
        (if lon_min \<le> lon_max then lon_min \<le> lo \<and> lo \<le> lon_max
         else lon_min \<le> lo \<or> lo \<le> lon_max))"

section \<open>The sensor\<close>

text \<open>The fields of \<^verbatim>\<open>OpenSkySensor\<close> that the tracking logic reads or writes
  (the HTTP session, the credentials and the event bus handle are left to the
  environment). The type parameter is how \<^verbatim>\<open>_previously_tracked\<close> is held: as the
  set itself, or as a reference into a store of set objects.\<close>

record 'ts sensor =
  self_latitude :: real
  self_longitude :: real
  self_radius :: real
  self_altitude :: real
  self_state :: int
  self_name :: string
  self_previously_tracked :: "'ts option"
  self_lat_min :: real
  self_lon_min :: real
  self_lat_max :: real
  self_lon_max :: real

text \<open>\<^verbatim>\<open>OpenSkySensor.__init__\<close>: the radius is given in kilometres and kept in
  metres.\<close>

definition init :: "string \<Rightarrow> real \<Rightarrow> real \<Rightarrow> real \<Rightarrow> real \<Rightarrow> pyerr + 'ts sensor" where
  "init name latitude longitude radius altitude =
     (case get_bbox latitude longitude (radius * 1000) of
        Inl e \<Rightarrow> Inl e
      | Inr (lat_min, lon_min, lat_max, lon_max) \<Rightarrow>
          Inr \<lparr>self_latitude = latitude, self_longitude = longitude,
               self_radius = radius * 1000, self_altitude = altitude, self_state = 0,
               self_name = name, self_previously_tracked = None,
               self_lat_min = lat_min, self_lon_min = lon_min,
               self_lat_max = lat_max, self_lon_max = lon_max\<rparr>)"

definition native_value :: "'ts sensor \<Rightarrow> int" where
  "native_value s = self_state s"

section \<open>The environment of an update\<close>

text \<open>Two things are supplied from outside the module. \<open>util_distance\<close> is
  \<^verbatim>\<open>homeassistant.util.location.distance\<close>, called with the sensor's coordinates
  and whatever the record holds as latitude and longitude: it may raise, return
  \<^verbatim>\<open>None\<close> or return metres. \<open>set_iter\<close> is the order in which Python iterates a
  set, which the language leaves open.\<close>

record env =
  util_distance :: "real \<Rightarrow> real \<Rightarrow> jval \<Rightarrow> jval \<Rightarrow> pyerr + real option"
  set_iter :: "string set \<Rightarrow> string list"

text \<open>What the code observes of the \<^verbatim>\<open>requests.Response\<close> returned by
  \<^verbatim>\<open>self._session.get\<close>: its truth value (\<^verbatim>\<open>ok\<close>), the chunks of bytes that
  iterating it yields, and what \<^verbatim>\<open>json()\<close> returns or raises. Either request may
  raise instead of returning.\<close>

record response =
  resp_ok :: bool
  resp_chunks :: "nat list list"
  resp_json :: "pyerr + jval"

datatype fetch = Raises pyerr | Returns response

text \<open>The event data passed to \<^verbatim>\<open>self._hass.bus.fire\<close>.\<close>

record event =
  event_type :: string
  ev_callsign :: string
  ev_altitude :: jval
  ev_sensor :: string
  ev_longitude :: jval
  ev_latitude :: jval
  ev_icao24 :: jval

type_synonym metadata = "string \<rightharpoonup> flight"

section \<open>\<^verbatim>\<open>OpenSkySensor.update\<close>\<close>

text \<open>Lines 208-211: \<^verbatim>\<open>states = states.json().get(ATTR_STATES)\<close> inside a bare
  \<^verbatim>\<open>try/except\<close>. When \<^verbatim>\<open>json()\<close> raises, or returns something without a
  \<^verbatim>\<open>get\<close> method, the variable keeps the response object.\<close>

datatype states_var = Parsed jval | Unparsed response

definition parse_states :: "response \<Rightarrow> states_var" where
  "parse_states r =
     (case resp_json r of
        Inl e \<Rightarrow> Unparsed r
      | Inr (JObj kvs) \<Rightarrow> Parsed (dget (map_of kvs) ATTR_STATES)
      | Inr v \<Rightarrow> Unparsed r)"

text \<open>Line 212, \<^verbatim>\<open>if states:\<close>, and line 213, \<^verbatim>\<open>for state in states:\<close>. A chunk
  of bytes is only ever zipped with the field names, which reads it as the list of its
  integers.\<close>

fun states_truthy :: "states_var \<Rightarrow> bool" where
  "states_truthy (Parsed v) = truthy v"
| "states_truthy (Unparsed r) = resp_ok r"

fun states_iter :: "states_var \<Rightarrow> pyerr + jval list" where
  "states_iter (Parsed v) = py_iter v"
| "states_iter (Unparsed r) =
     Inr (map (\<lambda>chunk. JArr (map (\<lambda>b. JNum (of_nat b)) chunk)) (resp_chunks r))"

text \<open>Lines 214-215: the record as a dict, and its stripped callsign.\<close>

definition decode :: "jval \<Rightarrow> pyerr + (string \<times> flight)" where
  "decode state =
     (case py_iter state of
        Inl e \<Rightarrow> Inl e
      | Inr vals \<Rightarrow>
          (let flight = map_of (zip OPENSKY_API_FIELDS vals) in
           case flight ATTR_CALLSIGN of
             None \<Rightarrow> Inl KeyError
           | Some v \<Rightarrow>
               (case py_strip v of
                  Inl e \<Rightarrow> Inl e
                | Inr callsign \<Rightarrow> Inr (callsign, flight))))"

text \<open>Lines 220-239: whether the record reaches \<^verbatim>\<open>currently_tracked.add\<close>. Each
  \<^verbatim>\<open>continue\<close> is the answer \<open>False\<close>; the conjunction of line 237 evaluates the
  comparison first.\<close>

definition tracks :: "env \<Rightarrow> 'ts sensor \<Rightarrow> flight \<Rightarrow> pyerr + bool" where
  "tracks env s flight =
     (let longitude = dget flight ATTR_LONGITUDE;
          latitude = dget flight ATTR_LATITUDE
      in if longitude = JNull \<or> latitude = JNull \<or> truthy (dget flight ATTR_ON_GROUND)
         then Inr False
         else
           (case util_distance env (self_latitude s) (self_longitude s) latitude longitude of
              Inl e \<Rightarrow> Inl e
            | Inr None \<Rightarrow> Inr False
            | Inr (Some distance) \<Rightarrow>
                if distance > self_radius s then Inr False
                else
                  (let altitude = dget flight ATTR_ALTITUDE
                   in if altitude = JNull then Inr False
                      else
                        (case py_gt altitude (self_altitude s) of
                           Inl e \<Rightarrow> Inl e
                         | Inr exceeds \<Rightarrow>
                             if exceeds \<and> self_altitude s \<noteq> 0 then Inr False
                             else Inr True))))"

text \<open>One turn of the loop of lines 213-239 on the pair
  \<open>(currently_tracked, flight_metadata)\<close>.\<close>

definition process_state ::
  "env \<Rightarrow> 'ts sensor \<Rightarrow> jval \<Rightarrow> string set \<times> metadata \<Rightarrow> pyerr + (string set \<times> metadata)" where
  "process_state env s state acc =
     (case decode state of
        Inl e \<Rightarrow> Inl e
      | Inr (callsign, flight) \<Rightarrow>
          if callsign \<noteq> [] then
            (case tracks env s flight of
               Inl e \<Rightarrow> Inl e
             | Inr add \<Rightarrow>
                 Inr (if add then insert callsign (fst acc) else fst acc,
                      (snd acc)(callsign \<mapsto> flight)))
          else Inr acc)"

fun process_states ::
  "env \<Rightarrow> 'ts sensor \<Rightarrow> jval list \<Rightarrow> string set \<times> metadata \<Rightarrow> pyerr + (string set \<times> metadata)" where
  "process_states env s [] acc = Inr acc"
| "process_states env s (state # rest) acc =
     (case process_state env s state acc of
        Inl e \<Rightarrow> Inl e
      | Inr acc' \<Rightarrow> process_states env s rest acc')"

text \<open>Lines 193-239: the two locals after the loop.\<close>

definition collect :: "env \<Rightarrow> 'ts sensor \<Rightarrow> response \<Rightarrow> pyerr + (string set \<times> metadata)" where
  "collect env s r =
     (let states = parse_states r
      in if states_truthy states then
           (case states_iter states of
              Inl e \<Rightarrow> Inl e
            | Inr sts \<Rightarrow> process_states env s sts ({}, Map.empty))
         else Inr ({}, Map.empty))"

text \<open>\<^verbatim>\<open>OpenSkySensor._handle_boundary\<close>: one event per flight, in the order of
  iteration.\<close>

definition boundary_event :: "'ts sensor \<Rightarrow> string \<Rightarrow> metadata \<Rightarrow> string \<Rightarrow> event" where
  "boundary_event s event metadata flight =
     (case metadata flight of
        Some m \<Rightarrow>
          \<lparr>event_type = event, ev_callsign = flight, ev_altitude = dget m ATTR_ALTITUDE,
           ev_sensor = self_name s, ev_longitude = dget m ATTR_LONGITUDE,
           ev_latitude = dget m ATTR_LATITUDE, ev_icao24 = dget m ATTR_ICAO24\<rparr>
      | None \<Rightarrow>
          \<lparr>event_type = event, ev_callsign = flight, ev_altitude = JNum 0,
           ev_sensor = self_name s, ev_longitude = JNull,
           ev_latitude = JNull, ev_icao24 = JNull\<rparr>)"

definition handle_boundary :: "'ts sensor \<Rightarrow> string list \<Rightarrow> string \<Rightarrow> metadata \<Rightarrow> event list" where
  "handle_boundary s flights event metadata = map (boundary_event s event metadata) flights"

text \<open>Lines 240-244, given the previous set: entries first, then exits.\<close>

definition boundary_events ::
  "env \<Rightarrow> 'ts sensor \<Rightarrow> string set option \<Rightarrow> string set \<Rightarrow> metadata \<Rightarrow> event list" where
  "boundary_events env s previously_tracked currently_tracked flight_metadata =
     (case previously_tracked of
        None \<Rightarrow> []
      | Some prev \<Rightarrow>
          (let entries = currently_tracked - prev;
               exits = prev - currently_tracked
           in handle_boundary s (set_iter env entries) EVENT_OPENSKY_ENTRY flight_metadata
              @ handle_boundary s (set_iter env exits) EVENT_OPENSKY_EXIT flight_metadata))"

text \<open>\<^verbatim>\<open>OpenSkySensor.update\<close>, returning the sensor after the call and the events
  fired, or the exception that left the method. The event bus is taken to accept every
  event, so nothing is assigned to the sensor and nothing is fired before the last place
  that can raise.\<close>

definition update ::
  "env \<Rightarrow> fetch \<Rightarrow> string set sensor \<Rightarrow> pyerr + (string set sensor \<times> event list)" where
  "update env f s =
     (case f of
        Raises e \<Rightarrow> Inl e
      | Returns r \<Rightarrow>
          (case collect env s r of
             Inl e \<Rightarrow> Inl e
           | Inr (currently_tracked, flight_metadata) \<Rightarrow>
               Inr (s\<lparr>self_state := int (card currently_tracked),
                       self_previously_tracked := Some currently_tracked\<rparr>,
                    boundary_events env s (self_previously_tracked s)
                      currently_tracked flight_metadata)))"

section \<open>The update on set objects\<close>

text \<open>Python sets are objects: \<^verbatim>\<open>_previously_tracked\<close> holds a reference. Here the
  set objects live in a store, addressed by position, and the sensor holds an address.
  \<^verbatim>\<open>currently_tracked = set()\<close> of line 193 creates an object that only the local
  variable reaches until line 246 assigns it to the field: it enters the store, at a new
  address, with the elements the loop added. The set differences of lines 241-242 build
  sets of their own and read the old object.\<close>

type_synonym addr = nat
type_synonym store = "string set list"

definition update_obj ::
  "env \<Rightarrow> fetch \<Rightarrow> addr sensor \<times> store \<Rightarrow> pyerr + ((addr sensor \<times> store) \<times> event list)" where
  "update_obj env f st =
     (case st of (s, h) \<Rightarrow>
        (case f of
           Raises e \<Rightarrow> Inl e
         | Returns r \<Rightarrow>
             (case collect env s r of
                Inl e \<Rightarrow> Inl e
              | Inr (currently_tracked, flight_metadata) \<Rightarrow>
                  (let a = length h;
                       h' = h @ [currently_tracked]
                   in Inr ((s\<lparr>self_state := int (card (h' ! a)),
                               self_previously_tracked := Some a\<rparr>, h'),
                           boundary_events env s
                             (map_option (\<lambda>p. h ! p) (self_previously_tracked s))
                             currently_tracked flight_metadata)))))"

text \<open>The sensor with its reference followed.\<close>

definition deref :: "store \<Rightarrow> addr sensor \<Rightarrow> string set sensor" where
  "deref h s =
     \<lparr>self_latitude = self_latitude s, self_longitude = self_longitude s,
      self_radius = self_radius s, self_altitude = self_altitude s,
      self_state = self_state s, self_name = self_name s,
      self_previously_tracked = map_option (\<lambda>p. h ! p) (self_previously_tracked s),
      self_lat_min = self_lat_min s, self_lon_min = self_lon_min s,
      self_lat_max = self_lat_max s, self_lon_max = self_lon_max s\<rparr>"

section \<open>Notions of the specification\<close>

text \<open>The inclusion filter in the specification's words: longitude and latitude
  present, not on the ground, distance at most the radius, altitude present, and no
  ceiling or an altitude at most the ceiling.\<close>

fun as_number :: "jval \<Rightarrow> real option" where
  "as_number (JNum a) = Some a"
| "as_number (JBool b) = Some (if b then 1 else 0)"
| "as_number v = None"

definition passes_filters :: "env \<Rightarrow> 'ts sensor \<Rightarrow> flight \<Rightarrow> bool" where
  "passes_filters env s flight =
     (dget flight ATTR_LONGITUDE \<noteq> JNull \<and> dget flight ATTR_LATITUDE \<noteq> JNull \<and>
      \<not> truthy (dget flight ATTR_ON_GROUND) \<and>
      (case util_distance env (self_latitude s) (self_longitude s)
              (dget flight ATTR_LATITUDE) (dget flight ATTR_LONGITUDE) of
         Inr (Some d) \<Rightarrow> d \<le> self_radius s
       | _ \<Rightarrow> False) \<and>
      dget flight ATTR_ALTITUDE \<noteq> JNull \<and>
      (case as_number (dget flight ATTR_ALTITUDE) of
         Some a \<Rightarrow> self_altitude s = 0 \<or> a \<le> self_altitude s
       | None \<Rightarrow> False))"

text \<open>The records of a batch that reach the metadata, as pairs of stripped callsign
  and flight, in the order of the batch.\<close>

definition record_entry :: "jval \<Rightarrow> (string \<times> flight) list" where
  "record_entry state =
     (case decode state of
        Inr (callsign, flight) \<Rightarrow> if callsign \<noteq> [] then [(callsign, flight)] else []
      | Inl e \<Rightarrow> [])"

definition batch_entries :: "jval list \<Rightarrow> (string \<times> flight) list" where
  "batch_entries sts = concat (map record_entry sts)"

text \<open>A qualifying record: it decodes, its callsign is not blank, and it passes the
  filter.\<close>

definition qualifies :: "env \<Rightarrow> 'ts sensor \<Rightarrow> jval \<Rightarrow> bool" where
  "qualifies env s state =
     (case decode state of
        Inr (callsign, flight) \<Rightarrow> callsign \<noteq> [] \<and> passes_filters env s flight
      | Inl e \<Rightarrow> False)"

text \<open>An iteration order visits every element of a finite set once.\<close>

definition enumerates :: "(string set \<Rightarrow> string list) \<Rightarrow> bool" where
  "enumerates it = (\<forall>S. finite S \<longrightarrow> set (it S) = S \<and> distinct (it S))"

text \<open>A record the loop gets through: a list of at least two fields whose callsign is
  a string and whose longitude, latitude and altitude are numbers or null; the fields a
  short record lacks count as null.\<close>

definition field :: "jval list \<Rightarrow> nat \<Rightarrow> jval" where
  "field vals i = (if i < length vals then vals ! i else JNull)"

fun number_or_null :: "jval \<Rightarrow> bool" where
  "number_or_null JNull = True"
| "number_or_null (JNum a) = True"
| "number_or_null v = False"

fun is_string :: "jval \<Rightarrow> bool" where
  "is_string (JStr s) = True"
| "is_string v = False"

definition tolerated :: "jval \<Rightarrow> bool" where
  "tolerated state =
     (case state of
        JArr vals \<Rightarrow>
          2 \<le> length vals \<and> is_string (field vals 1) \<and> number_or_null (field vals 5) \<and>
          number_or_null (field vals 6) \<and> number_or_null (field vals 7)
      | _ \<Rightarrow> False)"

text \<open>The exception a record that is a list makes the loop raise, if any. Fewer than
  two fields: \<^verbatim>\<open>KeyError\<close>. A callsign that is not a string: \<^verbatim>\<open>AttributeError\<close>.
  Otherwise, for a callsign that is not blank, with longitude and latitude present and
  the aircraft not on the ground: whatever the distance function raises on the
  coordinates, or, within the radius, \<^verbatim>\<open>TypeError\<close> for an altitude that is neither
  null nor a number nor a boolean (a string, a list, a dict).\<close>

definition abort_error :: "env \<Rightarrow> 'ts sensor \<Rightarrow> jval list \<Rightarrow> pyerr option" where
  "abort_error env s vals =
     (if length vals < 2 then Some KeyError
      else
        (case field vals 1 of
           JStr cs \<Rightarrow>
             if strip cs = [] \<or> field vals 5 = JNull \<or> field vals 6 = JNull
                \<or> truthy (field vals 8)
             then None
             else
               (case util_distance env (self_latitude s) (self_longitude s)
                       (field vals 6) (field vals 5) of
                  Inl e \<Rightarrow> Some e
                | Inr None \<Rightarrow> None
                | Inr (Some d) \<Rightarrow>
                    if d \<le> self_radius s \<and> field vals 7 \<noteq> JNull
                       \<and> as_number (field vals 7) = None
                    then Some TypeError
                    else None)
         | _ \<Rightarrow> Some AttributeError))"

section \<open>Example data\<close>

text \<open>A distance function to run the code on: metres along the two axes, a degree
  taken as 111 km. Like any great-circle distance it is zero between identical
  points, and it raises on coordinates that are not numbers.\<close>

definition example_distance :: "real \<Rightarrow> real \<Rightarrow> jval \<Rightarrow> jval \<Rightarrow> pyerr + real option" where
  "example_distance lat1 lon1 lat2 lon2 =
     (case (lat2, lon2) of
        (JNum a, JNum b) \<Rightarrow> Inr (Some (111000 * (\<bar>a - lat1\<bar> + \<bar>b - lon1\<bar>)))
      | _ \<Rightarrow> Inl TypeError)"

definition example_env :: env where
  "example_env = \<lparr>util_distance = example_distance, set_iter = sorted_list_of_set\<rparr>"

text \<open>A sensor at latitude 0, longitude 0 with a radius of 50 km and a ceiling of
  1000 m, before its first update.\<close>

definition example_sensor :: "string set sensor" where
  "example_sensor =
     \<lparr>self_latitude = 0, self_longitude = 0, self_radius = 50000, self_altitude = 1000,
      self_state = 0, self_name = ''opensky'', self_previously_tracked = None,
      self_lat_min = degrees (- (50 / 6371)), self_lon_min = degrees (- (50 / 6371)),
      self_lat_max = degrees (50 / 6371), self_lon_max = degrees (50 / 6371)\<rparr>"

text \<open>The same sensor as an object after an earlier update: it holds a reference to
  the set object at address 0 of the store, and its count is 2.\<close>

definition example_object :: "addr sensor" where
  "example_object =
     \<lparr>self_latitude = 0, self_longitude = 0, self_radius = 50000, self_altitude = 1000,
      self_state = 2, self_name = ''opensky'', self_previously_tracked = Some 0,
      self_lat_min = degrees (- (50 / 6371)), self_lon_min = degrees (- (50 / 6371)),
      self_lat_max = degrees (50 / 6371), self_lon_max = degrees (50 / 6371)\<rparr>"

text \<open>A state vector of 13 fields at the sensor's position, with the given callsign,
  altitude and on-ground flag.\<close>

definition example_state :: "string \<Rightarrow> jval \<Rightarrow> bool \<Rightarrow> jval" where
  "example_state callsign altitude on_ground =
     JArr [JStr ''abc123'', JStr callsign, JStr ''Nowhere'', JNum 1, JNum 1, JNum 0, JNum 0,
           altitude, JBool on_ground, JNum 200, JNum 90, JNum 0, JNull]"

definition example_flight :: "string \<Rightarrow> jval \<Rightarrow> bool \<Rightarrow> flight" where
  "example_flight callsign altitude on_ground =
     map_of (zip OPENSKY_API_FIELDS
       [JStr ''abc123'', JStr callsign, JStr ''Nowhere'', JNum 1, JNum 1, JNum 0, JNum 0,
        altitude, JBool on_ground, JNum 200, JNum 90, JNum 0, JNull])"

text \<open>Batches of such records: one airborne and one on the ground; the same callsign
  twice, airborne and then on the ground; two airborne; and a record of two fields only
  followed by a full one.\<close>

definition mixed_batch :: "jval list" where
  "mixed_batch =
     [example_state ''AAL1'' (JNum 500) False, example_state ''BAW2  '' (JNum 500) True]"

definition duplicate_batch :: "jval list" where
  "duplicate_batch =
     [example_state ''AAL1'' (JNum 500) False, example_state ''AAL1'' (JNum 500) True]"

definition airborne_batch :: "jval list" where
  "airborne_batch =
     [example_state ''BAW2  '' (JNum 500) False, example_state ''CCA3'' (JNum 900) False]"

definition short_batch :: "jval list" where
  "short_batch =
     [JArr [JStr ''abc123'', JStr ''AAL1''], example_state ''BAW2  '' (JNum 500) False]"

text \<open>A response whose body is the JSON object with the given items.\<close>

definition json_response :: "(string \<times> jval) list \<Rightarrow> response" where
  "json_response kvs = \<lparr>resp_ok = True, resp_chunks = [], resp_json = Inr (JObj kvs)\<rparr>"

definition states_response :: "jval list \<Rightarrow> response" where
  "states_response sts = json_response [(''time'', JNum 1), (ATTR_STATES, JArr sts)]"

section \<open>Properties of the bounding box\<close>

lemma py_mod_wrap: "0 \<le> d \<Longrightarrow> d < pi \<Longrightarrow> py_mod (pi + d) pi = d"
proof -
  assume d: "0 \<le> d" "d < pi"
  have "(pi + d) / pi = 1 + d / pi" by (simp add: field_simps)
  moreover have "0 \<le> d / pi" "d / pi < 1" using d by simp_all
  ultimately have "\<lfloor>(pi + d) / pi\<rfloor> = 1" by linarith
  then show ?thesis by (simp add: py_mod_def)
qed

lemma degrees_less: "degrees x < degrees y \<longleftrightarrow> x < y"
  by (simp add: degrees_def divide_less_cancel)

lemma degrees_le: "degrees x \<le> degrees y \<longleftrightarrow> x \<le> y"
  by (simp add: degrees_def divide_le_cancel)

lemma degrees_inj: "degrees x = degrees y \<longleftrightarrow> x = y"
  by (simp add: degrees_def)

lemma degrees_pi: "degrees pi = 180"
  by (simp add: degrees_def)

text \<open>The box of a sensor on the equator at longitude 180, for a radius of
  \<open>6371 * d\<close> km: \<open>lon + dLon\<close> exceeds \<open>pi\<close> by \<open>d\<close>, and line 150 returns
  \<open>pi - d\<close> for the eastern edge.\<close>

lemma bbox_at_antimeridian:
  assumes "0 < d" "d \<le> 1"
  shows "get_bbox 0 180 (6371000 * d) =
           Inr (degrees (- d), degrees (pi - d), degrees d, degrees (pi - d))"
proof -
  have d: "d < pi" "d \<le> pi / 2" using assms pi_ge_two by linarith+
  have m: "py_mod (pi + d) pi = d" using assms d by (simp add: py_mod_wrap)
  have h: "6371000 * d / 1000 = 6371 * d" by simp
  have "\<not> pi - d < - pi" using d pi_gt_zero by linarith
  moreover have "max (- pi / 2) (- d) = - d" "min (pi / 2) d = d" using d by simp_all
  ultimately show ?thesis
    using assms m d
    by (simp add: get_bbox_def radians_def Let_def h)
qed

text \<open>The western edge, line 147, wraps as intended: for a sensor at longitude -180
  the box runs from \<open>pi - d\<close> across the antimeridian to \<open>- pi + d\<close>.\<close>

lemma py_mod_wrap_west: "0 \<le> d \<Longrightarrow> d < pi \<Longrightarrow> py_mod (- pi - d) (- pi) = - d"
proof -
  assume d: "0 \<le> d" "d < pi"
  have "(- pi - d) / (- pi) = 1 + d / pi" by (simp add: field_simps)
  moreover have "0 \<le> d / pi" "d / pi < 1" using d by simp_all
  ultimately have "\<lfloor>(- pi - d) / (- pi)\<rfloor> = 1" by linarith
  then show ?thesis by (simp add: py_mod_def)
qed

lemma bbox_west_edge_wraps:
  assumes "0 < d" "d \<le> 1"
  shows "get_bbox 0 (- 180) (6371000 * d) =
           Inr (degrees (- d), degrees (pi - d), degrees d, degrees (- pi + d))"
proof -
  have d: "d < pi" "d \<le> pi / 2" using assms pi_ge_two by linarith+
  have m: "py_mod (- pi - d) (- pi) = - d" using assms d by (simp add: py_mod_wrap_west)
  have h: "6371000 * d / 1000 = 6371 * d" by simp
  have "\<not> d - pi > pi" using d pi_gt_zero by linarith
  moreover have "max (- pi / 2) (- d) = - d" "min (pi / 2) d = d" using d by simp_all
  ultimately show ?thesis
    using assms m d
    by (simp add: get_bbox_def radians_def Let_def h)
qed

text \<open>The latitudes of the box: they enclose the centre and stay within \<open>[-90, 90]\<close>,
  for every centre and radius on which the function returns.\<close>

lemma degrees_radians: "degrees (radians x) = x"
  by (simp add: degrees_def radians_def)

lemma degrees_half_pi:
  "degrees (pi / 2) = 90" "degrees (- pi / 2) = - 90" "degrees (- (pi / 2)) = - 90"
  by (simp_all add: degrees_def)

lemma bbox_latitudes:
  assumes "- 90 \<le> latitude" "latitude \<le> 90" "0 < radius"
    and "get_bbox latitude longitude radius = Inr (lat_min, lon_min, lat_max, lon_max)"
  shows "lat_min \<le> latitude \<and> latitude \<le> lat_max \<and> - 90 \<le> lat_min \<and> lat_max \<le> 90"
proof -
  let ?lat = "radians latitude"
  let ?d = "radius / 1000 / 6371"
  have d: "0 \<le> ?d" using assms(3) by simp
  from assms(3,4) have mn: "lat_min = degrees (max (- pi / 2) (?lat - ?d))"
    and mx: "lat_max = degrees (min (pi / 2) (?lat + ?d))"
    by (auto simp: get_bbox_def Let_def split: if_splits)
  have "pi * (- 90) \<le> pi * latitude" "pi * latitude \<le> pi * 90"
    using assms(1,2) by (intro mult_left_mono; simp)+
  then have r: "- pi / 2 \<le> ?lat" "?lat \<le> pi / 2"
    by (simp_all add: radians_def field_simps)
  have 1: "max (- pi / 2) (?lat - ?d) \<le> ?lat" using r d by simp
  have 2: "?lat \<le> min (pi / 2) (?lat + ?d)" using r d by simp
  have 3: "- pi / 2 \<le> max (- pi / 2) (?lat - ?d)" by (rule max.cobounded1)
  have 4: "min (pi / 2) (?lat + ?d) \<le> pi / 2" by (rule min.cobounded1)
  from 1 have "lat_min \<le> degrees ?lat" unfolding mn by (simp only: degrees_le)
  moreover from 2 have "degrees ?lat \<le> lat_max" unfolding mx by (simp only: degrees_le)
  moreover from 3 have "degrees (- pi / 2) \<le> lat_min" unfolding mn by (simp only: degrees_le)
  moreover from 4 have "lat_max \<le> degrees (pi / 2)" unfolding mx by (simp only: degrees_le)
  ultimately show ?thesis by (simp add: degrees_radians degrees_half_pi)
qed

text \<open>
  C2 (the code at a failing input). Centre at latitude 0, longitude 180, radius 100 km,
  so \<open>lonRad + dLon = pi + 100/6371\<close> exceeds \<open>pi\<close>. The claim has the eastern edge
  at that value less \<open>2 * pi\<close>, in degrees. The code returns \<open>pi - 100/6371\<close> in
  degrees for both the western and the eastern edge: the eastern edge is not the
  wrapped value, it lies west of the centre, and the centre is outside its own box.
\<close>

theorem bbox_antimeridian_east_edge:
  "get_bbox 0 180 100000 =
     Inr (degrees (- (100 / 6371)), degrees (pi - 100 / 6371),
          degrees (100 / 6371), degrees (pi - 100 / 6371))
   \<and> degrees (pi - 100 / 6371) \<noteq> degrees (radians 180 + 100 / 6371 - 2 * pi)
   \<and> degrees (pi - 100 / 6371) < 180
   \<and> \<not> in_box (degrees (- (100 / 6371)), degrees (pi - 100 / 6371),
                   degrees (100 / 6371), degrees (pi - 100 / 6371)) 0 180"
proof -
  have b: "get_bbox 0 180 100000 =
     Inr (degrees (- (100 / 6371)), degrees (pi - 100 / 6371),
          degrees (100 / 6371), degrees (pi - 100 / 6371))"
    using bbox_at_antimeridian [of "100 / 6371"] by simp
  have lt: "degrees (pi - 100 / 6371) < 180"
    using degrees_less [of "pi - 100 / 6371" pi] by (simp add: degrees_pi)
  have "pi - 100 / 6371 \<noteq> radians 180 + 100 / 6371 - 2 * pi"
    using pi_ge_two by (simp add: radians_def)
  then have ne: "degrees (pi - 100 / 6371) \<noteq> degrees (radians 180 + 100 / 6371 - 2 * pi)"
    by (simp only: degrees_inj not_False_eq_True)
  show ?thesis using b lt ne by (simp add: in_box_def)
qed

text \<open>
  C6 (the code at a failing input). Same centre, radius 100 km and radius 200 km. The
  point at latitude 0 on the eastern edge of the first box belongs to the first box and
  not to the second: doubling the radius moved the whole box west.
\<close>

theorem bbox_doubling_loses_points:
  "get_bbox 0 180 100000 =
     Inr (degrees (- (100 / 6371)), degrees (pi - 100 / 6371),
          degrees (100 / 6371), degrees (pi - 100 / 6371))
   \<and> get_bbox 0 180 200000 =
     Inr (degrees (- (200 / 6371)), degrees (pi - 200 / 6371),
          degrees (200 / 6371), degrees (pi - 200 / 6371))
   \<and> in_box (degrees (- (100 / 6371)), degrees (pi - 100 / 6371),
              degrees (100 / 6371), degrees (pi - 100 / 6371)) 0 (degrees (pi - 100 / 6371))
   \<and> \<not> in_box (degrees (- (200 / 6371)), degrees (pi - 200 / 6371),
                degrees (200 / 6371), degrees (pi - 200 / 6371)) 0 (degrees (pi - 100 / 6371))"
proof -
  have b1: "get_bbox 0 180 100000 =
     Inr (degrees (- (100 / 6371)), degrees (pi - 100 / 6371),
          degrees (100 / 6371), degrees (pi - 100 / 6371))"
    using bbox_at_antimeridian [of "100 / 6371"] by simp
  have b2: "get_bbox 0 180 200000 =
     Inr (degrees (- (200 / 6371)), degrees (pi - 200 / 6371),
          degrees (200 / 6371), degrees (pi - 200 / 6371))"
    using bbox_at_antimeridian [of "200 / 6371"] by simp
  have z: "degrees (- (100 / 6371)) \<le> 0" "0 \<le> degrees (100 / 6371)"
    by (simp_all add: degrees_def)
  have i1: "in_box (degrees (- (100 / 6371)), degrees (pi - 100 / 6371),
              degrees (100 / 6371), degrees (pi - 100 / 6371)) 0 (degrees (pi - 100 / 6371))"
    using z by (simp add: in_box_def)
  have "\<not> degrees (pi - 100 / 6371) \<le> degrees (pi - 200 / 6371)"
    by (simp add: degrees_le)
  then have i2: "\<not> in_box (degrees (- (200 / 6371)), degrees (pi - 200 / 6371),
                degrees (200 / 6371), degrees (pi - 200 / 6371)) 0 (degrees (pi - 100 / 6371))"
    by (simp add: in_box_def)
  show ?thesis using b1 b2 i1 i2 by (simp only: simp_thms)
qed

section \<open>The loop and the inclusion filter\<close>

text \<open>The code's filter agrees with the specification's wording wherever the code
  does not raise, and it does not raise on a flight that passes.\<close>

lemma py_gt_as_number:
  "py_gt v x = Inr b \<Longrightarrow> \<exists>a. as_number v = Some a \<and> b = (a > x)"
  by (cases v) auto

lemma as_number_py_gt: "as_number v = Some a \<Longrightarrow> py_gt v x = Inr (a > x)"
  by (cases v) auto

lemma tracks_passes: "tracks env s flight = Inr b \<Longrightarrow> b = passes_filters env s flight"
  unfolding tracks_def passes_filters_def Let_def
  by (auto split: if_splits sum.splits option.splits dest!: py_gt_as_number)

lemma passes_tracks:
  assumes "passes_filters env s flight"
  shows "tracks env s flight = Inr True"
proof -
  from assms obtain d a where
    d: "util_distance env (self_latitude s) (self_longitude s)
          (dget flight ATTR_LATITUDE) (dget flight ATTR_LONGITUDE) = Inr (Some d)"
       "d \<le> self_radius s"
    and a: "as_number (dget flight ATTR_ALTITUDE) = Some a"
       "self_altitude s = 0 \<or> a \<le> self_altitude s"
    unfolding passes_filters_def by (auto split: sum.splits option.splits)
  have g: "py_gt (dget flight ATTR_ALTITUDE) (self_altitude s) = Inr (a > self_altitude s)"
    using a(1) by (rule as_number_py_gt)
  from assms have "dget flight ATTR_LONGITUDE \<noteq> JNull" "dget flight ATTR_LATITUDE \<noteq> JNull"
    "\<not> truthy (dget flight ATTR_ON_GROUND)" "dget flight ATTR_ALTITUDE \<noteq> JNull"
    unfolding passes_filters_def by simp_all
  then show ?thesis using d a(2) g by (auto simp: tracks_def Let_def)
qed

text \<open>What the loop leaves in its two locals, when it completes: the callsigns with
  a passing record join the tracked set, and every entry is written to the metadata, a
  later one over an earlier one.\<close>

lemma process_state_entry:
  assumes "process_state env s state (T, M) = Inr (T', M')"
  shows "T' = T \<union> {c. \<exists>f. (c, f) \<in> set (record_entry state) \<and> passes_filters env s f}
       \<and> M' = M ++ map_of (record_entry state)"
  using assms unfolding process_state_def record_entry_def
  by (auto split: sum.splits if_splits dest: tracks_passes)

lemma process_states_entries:
  "process_states env s sts (T, M) = Inr (T', M') \<Longrightarrow>
     T' = T \<union> {c. \<exists>f. (c, f) \<in> set (batch_entries sts) \<and> passes_filters env s f}
   \<and> M' = M ++ map_of (rev (batch_entries sts))"
proof (induction sts arbitrary: T M)
  case Nil
  then show ?case by (simp add: batch_entries_def)
next
  case (Cons st sts)
  from Cons.prems obtain T1 M1 where
    one: "process_state env s st (T, M) = Inr (T1, M1)" and
    rest: "process_states env s sts (T1, M1) = Inr (T', M')"
    by (auto split: sum.splits)
  note a = process_state_entry [OF one] and b = Cons.IH [OF rest]
  have e: "batch_entries (st # sts) = record_entry st @ batch_entries sts"
    by (simp add: batch_entries_def)
  have r: "map_of (rev (record_entry st)) = map_of (record_entry st)"
    by (simp add: record_entry_def split: sum.splits)
  show ?case
    using a b by (auto simp: e r map_add_assoc Map.map_of_append)
qed

lemma entry_of_record:
  "st \<in> set sts \<Longrightarrow> decode st = Inr (c, f) \<Longrightarrow> c \<noteq> [] \<Longrightarrow> (c, f) \<in> set (batch_entries sts)"
  by (force simp: batch_entries_def record_entry_def)

lemma collect_batch:
  "parse_states r = Parsed (JArr sts) \<Longrightarrow>
     collect env s r = process_states env s sts ({}, Map.empty)"
  by (cases sts) (simp_all add: collect_def)

lemma collect_is_loop:
  "collect env s r = Inr (T, M) \<Longrightarrow> \<exists>sts. process_states env s sts ({}, Map.empty) = Inr (T, M)"
  unfolding collect_def Let_def
  by (auto split: if_splits sum.splits intro: exI [of _ "[]"])

lemma collect_finite_dom:
  assumes "collect env s r = Inr (T, M)"
  shows "finite T \<and> T \<subseteq> dom M"
proof -
  from collect_is_loop [OF assms] obtain sts where
    "process_states env s sts ({}, Map.empty) = Inr (T, M)" ..
  from process_states_entries [OF this]
  have T: "T = {c. \<exists>f. (c, f) \<in> set (batch_entries sts) \<and> passes_filters env s f}"
    and M: "M = map_of (rev (batch_entries sts))" by simp_all
  have sub: "T \<subseteq> fst ` set (batch_entries sts)" using T by force
  then have "finite T" by (rule finite_subset) simp
  moreover have "dom M = fst ` set (batch_entries sts)"
    unfolding M by (simp add: dom_map_of_conv_image_fst)
  ultimately show ?thesis using sub by simp
qed

lemma update_Returns:
  "update env (Returns r) s = Inr (s', evs) \<longleftrightarrow>
     (\<exists>cur md. collect env s r = Inr (cur, md)
        \<and> s' = s\<lparr>self_state := int (card cur), self_previously_tracked := Some cur\<rparr>
        \<and> evs = boundary_events env s (self_previously_tracked s) cur md)"
  by (auto simp: update_def split: sum.splits)

lemma update_tracked_finite:
  assumes "update env f s = Inr (s', evs)"
  shows "\<exists>cur. self_previously_tracked s' = Some cur \<and> finite cur
           \<and> native_value s' = int (card cur)"
proof -
  from assms obtain r where f: "f = Returns r"
    by (cases f) (simp_all add: update_def)
  from assms obtain cur md where c: "collect env s r = Inr (cur, md)"
    and s': "s' = s\<lparr>self_state := int (card cur), self_previously_tracked := Some cur\<rparr>"
    unfolding f update_Returns by blast
  from collect_finite_dom [OF c] show ?thesis by (simp add: s' native_value_def)
qed

lemma map_of_rev_distinct:
  "distinct (map fst es) \<Longrightarrow> map_of (rev es) c = Some f \<longleftrightarrow> (c, f) \<in> set es"
  by (metis distinct_rev map_of_eq_Some_iff rev_map set_rev)

lemma process_state_qualifies:
  assumes "qualifies env s st"
  shows "\<exists>c f. record_entry st = [(c, f)] \<and> passes_filters env s f
           \<and> process_state env s st (T, M) = Inr (insert c T, M(c \<mapsto> f))"
proof -
  from assms obtain c f where d: "decode st = Inr (c, f)" and c: "c \<noteq> []"
    and p: "passes_filters env s f"
    unfolding qualifies_def by (auto split: sum.splits)
  have "record_entry st = [(c, f)]" using d c by (simp add: record_entry_def)
  moreover have "process_state env s st (T, M) = Inr (insert c T, M(c \<mapsto> f))"
    using d c passes_tracks [OF p] by (simp add: process_state_def)
  ultimately show ?thesis using p by blast
qed

lemma process_states_qualify:
  "\<forall>st\<in>set sts. qualifies env s st \<Longrightarrow>
     process_states env s sts (T, M) =
       Inr (T \<union> fst ` set (batch_entries sts), M ++ map_of (rev (batch_entries sts)))
     \<and> length (batch_entries sts) = length sts"
proof (induction sts arbitrary: T M)
  case Nil
  then show ?case by (simp add: batch_entries_def)
next
  case (Cons st sts)
  from Cons.prems have "qualifies env s st" by simp
  from process_state_qualifies [OF this, of T M] obtain c f where
    e: "record_entry st = [(c, f)]" and
    p: "process_state env s st (T, M) = Inr (insert c T, M(c \<mapsto> f))" by blast
  have b: "batch_entries (st # sts) = (c, f) # batch_entries sts"
    by (simp add: batch_entries_def e)
  from Cons.prems have "\<forall>st\<in>set sts. qualifies env s st" by simp
  note ih = Cons.IH [OF this, of "insert c T" "M(c \<mapsto> f)"]
  have 1: "process_states env s (st # sts) (T, M)
             = process_states env s sts (insert c T, M(c \<mapsto> f))"
    by (simp add: p)
  have 2: "T \<union> fst ` set (batch_entries (st # sts))
             = insert c T \<union> fst ` set (batch_entries sts)"
    by (simp add: b)
  have 3: "M ++ map_of (rev (batch_entries (st # sts)))
             = M(c \<mapsto> f) ++ map_of (rev (batch_entries sts))"
    by (simp add: b fun_eq_iff map_add_def split: option.splits)
  have 4: "length (batch_entries (st # sts)) = Suc (length (batch_entries sts))"
    by (simp add: b)
  from ih show ?case unfolding 1 2 3 4 by (simp only: list.size length_Cons simp_thms)
qed

section \<open>Boundary events\<close>

lemma handle_boundary_callsigns:
  "map ev_callsign (handle_boundary s flights event md) = flights"
  by (induction flights) (simp_all add: handle_boundary_def boundary_event_def split: option.splits)

lemma handle_boundary_type:
  "e \<in> set (handle_boundary s flights event md) \<Longrightarrow> event_type e = event"
  by (auto simp: handle_boundary_def boundary_event_def split: option.splits)

lemma enumeratesD:
  "enumerates it \<Longrightarrow> finite S \<Longrightarrow> set (it S) = S \<and> distinct (it S)"
  by (simp add: enumerates_def)

lemma enumerates_empty: "enumerates it \<Longrightarrow> it {} = []"
  using enumeratesD [of it "{}"] by simp

lemma filter_distinct_eq:
  "distinct xs \<Longrightarrow> filter (\<lambda>x. x = c) xs = (if c \<in> set xs then [c] else [])"
  by (induction xs) auto

lemma filter_handle_boundary:
  "filter (\<lambda>e. ev_callsign e = c) (handle_boundary s flights event md)
     = handle_boundary s (filter (\<lambda>x. x = c) flights) event md"
  by (induction flights) (auto simp: handle_boundary_def boundary_event_def split: option.splits)

text \<open>Without a previous set nothing is fired, whatever the batch.\<close>

lemma first_call_no_events:
  assumes "self_previously_tracked s = None" and "update env f s = Inr (s', evs)"
  shows "evs = []"
proof -
  from assms(2) obtain r where f: "f = Returns r"
    by (cases f) (simp_all add: update_def)
  from assms(2) show ?thesis
    unfolding f update_Returns by (auto simp: boundary_events_def assms(1))
qed

section \<open>Records of any length\<close>

text \<open>Zipping the field names with a short record leaves the later names out of
  the dict.\<close>

lemma map_of_zip_nth:
  "distinct ks \<Longrightarrow> i < length ks \<Longrightarrow>
     map_of (zip ks vs) (ks ! i) = (if i < length vs then Some (vs ! i) else None)"
proof (induction ks arbitrary: vs i)
  case Nil
  then show ?case by simp
next
  case (Cons k ks)
  show ?case
  proof (cases vs)
    case Nil
    then show ?thesis by simp
  next
    case (Cons v vs')
    show ?thesis
    proof (cases i)
      case 0
      then show ?thesis by (simp add: Cons)
    next
      case (Suc j)
      with Cons.prems have "ks ! j \<noteq> k" by auto
      with Cons.IH [of j vs'] Cons.prems Suc show ?thesis by (simp add: Cons)
    qed
  qed
qed

lemma fields_distinct: "distinct OPENSKY_API_FIELDS"
  by (simp add: OPENSKY_API_FIELDS_def)

lemma fields_nth:
  "OPENSKY_API_FIELDS ! Suc 0 = ATTR_CALLSIGN" "OPENSKY_API_FIELDS ! 5 = ATTR_LONGITUDE"
  "OPENSKY_API_FIELDS ! 6 = ATTR_LATITUDE" "OPENSKY_API_FIELDS ! 7 = ATTR_ALTITUDE"
  "length OPENSKY_API_FIELDS = 13"
  by (simp_all add: OPENSKY_API_FIELDS_def)

lemma flight_fields:
  "map_of (zip OPENSKY_API_FIELDS vals) ATTR_CALLSIGN = (if 1 < length vals then Some (vals ! 1) else None)"
  "dget (map_of (zip OPENSKY_API_FIELDS vals)) ATTR_LONGITUDE = field vals 5"
  "dget (map_of (zip OPENSKY_API_FIELDS vals)) ATTR_LATITUDE = field vals 6"
  "dget (map_of (zip OPENSKY_API_FIELDS vals)) ATTR_ALTITUDE = field vals 7"
  using map_of_zip_nth [OF fields_distinct, of 1 vals] map_of_zip_nth [OF fields_distinct, of 5 vals]
    map_of_zip_nth [OF fields_distinct, of 6 vals] map_of_zip_nth [OF fields_distinct, of 7 vals]
  by (simp_all add: fields_nth dget_def field_def)

lemma number_or_null_cases: "number_or_null v \<Longrightarrow> v = JNull \<or> (\<exists>a. v = JNum a)"
  by (cases v) auto

lemma tracks_total:
  assumes dist: "\<And>la lo. \<exists>d. util_distance env (self_latitude s) (self_longitude s)
                                   (JNum la) (JNum lo) = Inr d"
    and "number_or_null (dget f ATTR_LONGITUDE)"
    and "number_or_null (dget f ATTR_LATITUDE)"
    and "number_or_null (dget f ATTR_ALTITUDE)"
  shows "\<exists>b. tracks env s f = Inr b"
proof -
  note n = assms(2-4) [THEN number_or_null_cases]
  show ?thesis
  proof (cases "dget f ATTR_LONGITUDE = JNull \<or> dget f ATTR_LATITUDE = JNull
                  \<or> truthy (dget f ATTR_ON_GROUND)")
    case True
    then show ?thesis by (auto simp: tracks_def Let_def)
  next
    case False
    with n obtain lo la where l: "dget f ATTR_LONGITUDE = JNum lo" "dget f ATTR_LATITUDE = JNum la"
      by auto
    from dist [of la lo] obtain d where
      d: "util_distance env (self_latitude s) (self_longitude s) (JNum la) (JNum lo) = Inr d" ..
    from n(3) show ?thesis using False l d
      by (cases d) (auto simp: tracks_def Let_def)
  qed
qed

lemma process_state_tolerated:
  assumes dist: "\<And>la lo. \<exists>d. util_distance env (self_latitude s) (self_longitude s)
                                   (JNum la) (JNum lo) = Inr d"
    and "tolerated st"
  shows "\<exists>acc'. process_state env s st acc = Inr acc'"
proof -
  from assms(2) obtain vals where st: "st = JArr vals" and len: "2 \<le> length vals"
    and str: "is_string (field vals 1)"
    and num: "number_or_null (field vals 5)" "number_or_null (field vals 6)"
             "number_or_null (field vals 7)"
    unfolding tolerated_def by (auto split: jval.splits)
  from str len obtain cs where cs: "vals ! 1 = JStr cs"
    by (cases "vals ! 1") (auto simp: field_def)
  let ?f = "map_of (zip OPENSKY_API_FIELDS vals)"
  have d: "decode st = Inr (strip cs, ?f)"
    using len cs by (simp add: decode_def st flight_fields(1))
  from tracks_total [of env s ?f, OF dist] num obtain b where "tracks env s ?f = Inr b"
    by (auto simp: flight_fields)
  then show ?thesis by (simp add: process_state_def d)
qed

lemma process_states_tolerated:
  assumes dist: "\<And>la lo. \<exists>d. util_distance env (self_latitude s) (self_longitude s)
                                   (JNum la) (JNum lo) = Inr d"
  shows "\<forall>st\<in>set sts. tolerated st \<Longrightarrow> \<exists>acc'. process_states env s sts acc = Inr acc'"
proof (induction sts arbitrary: acc)
  case Nil
  then show ?case by simp
next
  case (Cons st sts)
  from Cons.prems have "tolerated st" by simp
  from process_state_tolerated [OF dist this, of acc] obtain acc1 where
    "process_state env s st acc = Inr acc1" ..
  moreover from Cons.prems have "\<forall>st\<in>set sts. tolerated st" by simp
  from Cons.IH [OF this, of acc1] obtain acc' where "process_states env s sts acc1 = Inr acc'" ..
  ultimately show ?case by simp
qed

text \<open>Which list records make the loop raise, and with what: \<open>abort_error\<close> says it
  exactly. A batch holding such a record does not get through the loop.\<close>

lemma flight_on_ground:
  "dget (map_of (zip OPENSKY_API_FIELDS vals)) ATTR_ON_GROUND = field vals 8"
proof -
  have "OPENSKY_API_FIELDS ! 8 = ATTR_ON_GROUND" by (simp add: OPENSKY_API_FIELDS_def)
  with map_of_zip_nth [OF fields_distinct, of 8 vals] show ?thesis
    by (simp add: fields_nth dget_def field_def)
qed

lemma py_gt_Inl: "py_gt v x = Inl e \<longleftrightarrow> as_number v = None \<and> e = TypeError"
  by (cases v) auto

lemma tracks_Inl:
  "tracks env s f = Inl e \<longleftrightarrow>
     dget f ATTR_LONGITUDE \<noteq> JNull \<and> dget f ATTR_LATITUDE \<noteq> JNull
     \<and> \<not> truthy (dget f ATTR_ON_GROUND)
     \<and> (case util_distance env (self_latitude s) (self_longitude s)
               (dget f ATTR_LATITUDE) (dget f ATTR_LONGITUDE) of
          Inl e' \<Rightarrow> e' = e
        | Inr None \<Rightarrow> False
        | Inr (Some d) \<Rightarrow>
            d \<le> self_radius s \<and> dget f ATTR_ALTITUDE \<noteq> JNull
            \<and> as_number (dget f ATTR_ALTITUDE) = None \<and> e = TypeError)"
  unfolding tracks_def Let_def
  by (auto split: sum.splits option.splits simp: py_gt_Inl dest: py_gt_as_number)

lemma process_state_abort:
  "process_state env s (JArr vals) acc = Inl e \<longleftrightarrow> abort_error env s vals = Some e"
proof (cases "length vals < 2")
  case True
  then show ?thesis
    by (auto simp: process_state_def decode_def flight_fields(1) abort_error_def)
next
  case False
  then have v: "field vals 1 = vals ! 1" by (simp add: field_def)
  show ?thesis
  proof (cases "vals ! 1")
    case (JStr cs)
    have d: "decode (JArr vals) = Inr (strip cs, map_of (zip OPENSKY_API_FIELDS vals))"
      using False JStr by (simp add: decode_def flight_fields(1))
    from v JStr have fv: "field vals 1 = JStr cs" by simp
    let ?f = "map_of (zip OPENSKY_API_FIELDS vals)"
    have a: "abort_error env s vals =
      (if strip cs = [] \<or> field vals 5 = JNull \<or> field vals 6 = JNull \<or> truthy (field vals 8)
       then None
       else (case util_distance env (self_latitude s) (self_longitude s)
                    (field vals 6) (field vals 5) of
               Inl e \<Rightarrow> Some e
             | Inr None \<Rightarrow> None
             | Inr (Some d) \<Rightarrow>
                 if d \<le> self_radius s \<and> field vals 7 \<noteq> JNull
                    \<and> as_number (field vals 7) = None
                 then Some TypeError else None))"
      using False unfolding abort_error_def fv by simp
    have p: "process_state env s (JArr vals) acc = Inl e \<longleftrightarrow>
               strip cs \<noteq> [] \<and> tracks env s ?f = Inl e"
      by (auto simp: process_state_def d split: sum.splits)
    show ?thesis
      unfolding p a tracks_Inl flight_fields flight_on_ground
      by (auto split: sum.splits option.splits)
  next
    case JNull
    with False v show ?thesis
      unfolding abort_error_def v
      by (auto simp: process_state_def decode_def flight_fields(1))
  next
    case (JBool b)
    with False v show ?thesis
      unfolding abort_error_def v
      by (auto simp: process_state_def decode_def flight_fields(1))
  next
    case (JNum x)
    with False v show ?thesis
      unfolding abort_error_def v
      by (auto simp: process_state_def decode_def flight_fields(1))
  next
    case (JArr xs)
    with False v show ?thesis
      unfolding abort_error_def v
      by (auto simp: process_state_def decode_def flight_fields(1))
  next
    case (JObj kvs)
    with False v show ?thesis
      unfolding abort_error_def v
      by (auto simp: process_state_def decode_def flight_fields(1))
  qed
qed

lemma process_states_abort:
  assumes "st \<in> set sts" and "\<And>acc. \<exists>e. process_state env s st acc = Inl e"
  shows "\<exists>e. process_states env s sts acc = Inl e"
  using assms(1)
proof (induction sts arbitrary: acc)
  case Nil
  then show ?case by simp
next
  case (Cons x xs)
  show ?case
  proof (cases "process_state env s x acc")
    case (Inl e)
    then show ?thesis by simp
  next
    case (Inr acc')
    with assms(2) [of acc] have "x \<noteq> st" by auto
    with Cons.prems have "st \<in> set xs" by simp
    from Cons.IH [OF this, of acc'] show ?thesis by (simp add: Inr)
  qed
qed

lemma batch_aborts:
  assumes "parse_states r = Parsed (JArr sts)"
    and "JArr vals \<in> set sts" and "abort_error env s vals = Some e"
  shows "\<exists>e'. update env (Returns r) s = Inl e'"
proof -
  have "\<exists>e'. process_state env s (JArr vals) acc = Inl e'" for acc
    using assms(3) by (auto simp: process_state_abort)
  from process_states_abort [OF assms(2) this, of "({}, Map.empty)"]
  show ?thesis by (auto simp: update_def collect_batch [OF assms(1)])
qed

section \<open>The update on set objects and the update on sets\<close>

text \<open>The loop reads the configuration fields only, so it does not see how the
  tracked set is held; following the references turns an update on objects into the
  update on sets.\<close>

lemma deref_fields:
  "self_latitude (deref h s) = self_latitude s" "self_longitude (deref h s) = self_longitude s"
  "self_radius (deref h s) = self_radius s" "self_altitude (deref h s) = self_altitude s"
  "self_name (deref h s) = self_name s"
  by (simp_all add: deref_def)

lemma tracks_deref: "tracks env (deref h s) flight = tracks env s flight"
  unfolding tracks_def deref_fields ..

lemma process_state_deref:
  "process_state env (deref h s) state acc = process_state env s state acc"
  unfolding process_state_def tracks_deref ..

lemma process_states_deref: "process_states env (deref h s) sts acc = process_states env s sts acc"
  by (induction sts arbitrary: acc) (simp_all add: process_state_deref cong: sum.case_cong)

lemma collect_deref: "collect env (deref h s) r = collect env s r"
  unfolding collect_def process_states_deref ..

lemma boundary_events_deref:
  "boundary_events env (deref h s) prev cur md = boundary_events env s prev cur md"
  unfolding boundary_events_def handle_boundary_def boundary_event_def deref_fields ..

lemma update_obj_deref:
  assumes "update_obj env f (s, h) = Inr ((s', h'), evs)"
  shows "update env f (deref h s) = Inr (deref h' s', evs)"
proof -
  from assms obtain r where f: "f = Returns r"
    by (cases f) (simp_all add: update_obj_def)
  from assms obtain cur md where c: "collect env s r = Inr (cur, md)"
    and s': "s' = s\<lparr>self_state := int (card cur), self_previously_tracked := Some (length h)\<rparr>"
    and h': "h' = h @ [cur]"
    and evs: "evs = boundary_events env s (map_option (\<lambda>p. h ! p) (self_previously_tracked s)) cur md"
    unfolding f update_obj_def by (auto simp: Let_def split: sum.splits)
  show ?thesis
    by (simp add: f update_def collect_deref c boundary_events_deref evs)
       (simp add: deref_def s' h')
qed

section \<open>The code on the example data\<close>

lemma bbox_example:
  "get_bbox 0 0 50000 =
     Inr (degrees (- (50 / 6371)), degrees (- (50 / 6371)),
          degrees (50 / 6371), degrees (50 / 6371))"
proof -
  have "(50 / 6371 :: real) \<le> pi / 2" "\<not> - (50 / 6371 :: real) < - pi" "\<not> (50 / 6371 :: real) > pi"
    using pi_ge_two by simp_all
  moreover from this have "max (- pi / 2) (- (50 / 6371)) = - (50 / 6371)"
    "min (pi / 2) (50 / 6371) = 50 / 6371" by simp_all
  ultimately show ?thesis
    by (simp add: get_bbox_def radians_def Let_def)
qed

lemma init_example: "init ''opensky'' 0 0 50 1000 = Inr example_sensor"
  using bbox_example by (simp add: init_def example_sensor_def)

lemma example_sensor_fields:
  "self_latitude example_sensor = 0" "self_longitude example_sensor = 0"
  "self_radius example_sensor = 50000" "self_altitude example_sensor = 1000"
  "self_name example_sensor = ''opensky''" "self_previously_tracked example_sensor = None"
  by (simp_all add: example_sensor_def)

lemma enumerates_example: "enumerates (set_iter example_env)"
  by (simp add: enumerates_def example_env_def)

lemma example_distance_total:
  "\<exists>d. util_distance example_env la1 lo1 (JNum la) (JNum lo) = Inr d"
  by (simp add: example_env_def example_distance_def)

lemma parse_states_response: "parse_states (states_response sts) = Parsed (JArr sts)"
  by (simp add: parse_states_def states_response_def json_response_def dget_def)

lemma strip_examples:
  "strip ''AAL1'' = ''AAL1''" "strip ''BAW2  '' = ''BAW2''" "strip ''CCA3'' = ''CCA3''" "strip ''   '' = []"
  by (simp_all add: strip_def isspace_def)

lemma decode_example:
  "decode (example_state c a g) = Inr (strip c, example_flight c a g)"
  by (simp add: decode_def example_state_def example_flight_def OPENSKY_API_FIELDS_def)

lemma record_entry_example:
  "record_entry (example_state c a g) = (if strip c \<noteq> [] then [(strip c, example_flight c a g)] else [])"
  by (simp add: record_entry_def decode_example)

lemma example_flight_fields:
  "dget (example_flight c a g) ATTR_LONGITUDE = JNum 0"
  "dget (example_flight c a g) ATTR_LATITUDE = JNum 0"
  "dget (example_flight c a g) ATTR_ALTITUDE = a"
  "dget (example_flight c a g) ATTR_ON_GROUND = JBool g"
  "dget (example_flight c a g) ATTR_ICAO24 = JStr ''abc123''"
  by (simp_all add: dget_def example_flight_def OPENSKY_API_FIELDS_def)

lemma tracks_at_example:
  assumes "self_latitude s = 0" "self_longitude s = 0" "self_radius s = 50000"
  shows "tracks example_env s (example_flight c (JNum a) g) =
           Inr (\<not> g \<and> (self_altitude s = 0 \<or> a \<le> self_altitude s))"
  using assms
  by (auto simp: tracks_def example_flight_fields example_env_def example_distance_def Let_def)

lemma passes_at_example:
  assumes "self_latitude s = 0" "self_longitude s = 0" "self_radius s = 50000"
  shows "passes_filters example_env s (example_flight c (JNum a) g) =
           (\<not> g \<and> (self_altitude s = 0 \<or> a \<le> self_altitude s))"
  using assms
  by (simp add: passes_filters_def example_flight_fields example_env_def example_distance_def)

lemma process_state_at_example:
  assumes "self_latitude s = 0" "self_longitude s = 0" "self_radius s = 50000"
  shows "process_state example_env s (example_state c (JNum a) g) (T, M) =
     (if strip c \<noteq> [] then
        Inr (if \<not> g \<and> (self_altitude s = 0 \<or> a \<le> self_altitude s)
             then insert (strip c) T else T,
             M(strip c \<mapsto> example_flight c (JNum a) g))
      else Inr (T, M))"
  by (simp add: process_state_def decode_example tracks_at_example [OF assms])

lemmas example_simps =
  collect_def parse_states_response process_state_at_example strip_examples example_sensor_def

lemma collect_airborne:
  assumes "self_latitude s = 0" "self_longitude s = 0" "self_radius s = 50000"
    "self_altitude s = 1000"
  shows "collect example_env s (states_response airborne_batch) =
     Inr ({''BAW2'', ''CCA3''},
          [''BAW2'' \<mapsto> example_flight ''BAW2  '' (JNum 500) False,
           ''CCA3'' \<mapsto> example_flight ''CCA3'' (JNum 900) False])"
  using assms
  by (simp add: collect_def parse_states_response process_state_at_example strip_examples
      airborne_batch_def insert_commute)

section \<open>Failures of the fetch\<close>

text \<open>C1 as stated fails. The sensor tracks \<open>AAL1\<close> and reports 1; the response is
  a JSON object without the key \<^verbatim>\<open>states\<close>. After the update the tracked set is empty,
  the count is 0 and an exit event was fired for \<open>AAL1\<close>.\<close>

theorem missing_states_counterexample:
  "parse_states (json_response [(''time'', JNum 1)]) = Parsed JNull
   \<and> update example_env (Returns (json_response [(''time'', JNum 1)]))
       (example_sensor\<lparr>self_state := 1, self_previously_tracked := Some {''AAL1''}\<rparr>) =
     Inr (example_sensor\<lparr>self_state := 0, self_previously_tracked := Some {}\<rparr>,
          [\<lparr>event_type = EVENT_OPENSKY_EXIT, ev_callsign = ''AAL1'', ev_altitude = JNum 0,
            ev_sensor = ''opensky'', ev_longitude = JNull, ev_latitude = JNull,
            ev_icao24 = JNull\<rparr>])"
proof -
  have p: "parse_states (json_response [(''time'', JNum 1)]) = Parsed JNull"
    by (simp add: parse_states_def json_response_def dget_def)
  then show ?thesis
    by (simp add: update_def collect_def boundary_events_def handle_boundary_def
        boundary_event_def example_env_def example_sensor_def)
qed

text \<open>C1, amended. When a request raises, \<^verbatim>\<open>update\<close> raises the same exception:
  nothing was assigned and nothing was fired. When the body is a JSON object whose
  \<^verbatim>\<open>states\<close> is missing or null, the guard of line 212 skips the loop and the
  cycle counts as an empty batch: the tracked set becomes empty, the count 0, no entry
  event is fired, and one exit event with altitude 0 and null position is fired for
  every callsign tracked before (none on the first call).\<close>

theorem fetch_failure_behaviour:
  assumes "enumerates (set_iter env)"
    and "resp_json r = Inr (JObj kvs)"
    and "dget (map_of kvs) ATTR_STATES = JNull"
  shows "update env (Raises e) s = Inl e
       \<and> update env (Returns r) s =
           Inr (s\<lparr>self_state := 0, self_previously_tracked := Some {}\<rparr>,
                case self_previously_tracked s of
                  None \<Rightarrow> []
                | Some prev \<Rightarrow> handle_boundary s (set_iter env prev) EVENT_OPENSKY_EXIT Map.empty)"
proof -
  have p: "parse_states r = Parsed JNull"
    by (simp add: parse_states_def assms(2) assms(3))
  have c: "collect env s r = Inr ({}, Map.empty)"
    by (simp add: collect_def p)
  have e: "set_iter env {} = []" using assms(1) by (rule enumerates_empty)
  show ?thesis
    by (simp add: update_def c boundary_events_def Let_def e handle_boundary_def
        split: option.splits)
qed

text \<open>The theorem at the sensor and the response above, with a request that raises
  \<^verbatim>\<open>RequestException\<close>.\<close>

theorem fetch_failure_behaviour_witness:
  "resp_json (json_response [(''time'', JNum 1)]) = Inr (JObj [(''time'', JNum 1)])
   \<and> dget (map_of [(''time'', JNum 1)]) ATTR_STATES = JNull
   \<and> update example_env (Raises RequestException)
       (example_sensor\<lparr>self_state := 1, self_previously_tracked := Some {''AAL1''}\<rparr>) =
     Inl RequestException
   \<and> update example_env (Returns (json_response [(''time'', JNum 1)]))
       (example_sensor\<lparr>self_state := 1, self_previously_tracked := Some {''AAL1''}\<rparr>) =
     Inr (example_sensor\<lparr>self_state := 0, self_previously_tracked := Some {}\<rparr>,
          [\<lparr>event_type = EVENT_OPENSKY_EXIT, ev_callsign = ''AAL1'', ev_altitude = JNum 0,
            ev_sensor = ''opensky'', ev_longitude = JNull, ev_latitude = JNull,
            ev_icao24 = JNull\<rparr>])"
proof -
  have j: "resp_json (json_response [(''time'', JNum 1)]) = Inr (JObj [(''time'', JNum 1)])"
    by (simp add: json_response_def)
  have g: "dget (map_of [(''time'', JNum 1)]) ATTR_STATES = JNull"
    by (simp add: dget_def)
  from fetch_failure_behaviour [OF enumerates_example j g, of RequestException
      "example_sensor\<lparr>self_state := 1, self_previously_tracked := Some {''AAL1''}\<rparr>"]
  show ?thesis using j g
    by (simp add: handle_boundary_def boundary_event_def example_env_def example_sensor_def)
qed

section \<open>The tracked set and the metadata\<close>

text \<open>C3 as stated fails. The batch holds the callsign \<open>AAL1\<close> twice, first
  airborne and then on the ground. The callsign is tracked, while the record stored
  under it in the metadata, the last one, does not pass the filter.\<close>

theorem duplicate_callsign_counterexample:
  "update example_env (Returns (states_response duplicate_batch)) example_sensor =
     Inr (example_sensor\<lparr>self_state := 1, self_previously_tracked := Some {''AAL1''}\<rparr>, [])
   \<and> collect example_env (example_sensor :: string set sensor) (states_response duplicate_batch) =
     Inr ({''AAL1''}, [''AAL1'' \<mapsto> example_flight ''AAL1'' (JNum 500) True])
   \<and> \<not> passes_filters example_env (example_sensor :: string set sensor)
         (example_flight ''AAL1'' (JNum 500) True)"
proof -
  have c: "collect example_env (example_sensor :: string set sensor)
             (states_response duplicate_batch) =
           Inr ({''AAL1''}, [''AAL1'' \<mapsto> example_flight ''AAL1'' (JNum 500) True])"
    by (simp add: example_simps duplicate_batch_def)
  have p: "\<not> passes_filters example_env (example_sensor :: string set sensor)
             (example_flight ''AAL1'' (JNum 500) True)"
    by (simp add: passes_at_example example_sensor_def)
  have u: "update example_env (Returns (states_response duplicate_batch)) example_sensor =
     Inr (example_sensor\<lparr>self_state := 1, self_previously_tracked := Some {''AAL1''}\<rparr>, [])"
    by (simp add: update_def c boundary_events_def) (simp add: example_sensor_def)
  from u c p show ?thesis by (simp only: simp_thms)
qed

text \<open>C3, amended. After an update that processes a batch, the new tracked set is
  the set of callsigns that have at least one record in the batch passing all the
  inclusion filters, and the metadata holds for each callsign its last record. When no
  callsign repeats in the batch, the tracked set is exactly the set of callsigns of the
  metadata whose stored record passes the filters.\<close>

theorem tracked_set_characterised:
  assumes "update env (Returns r) s = Inr (s', evs)"
    and "parse_states r = Parsed (JArr sts)"
  shows "\<exists>cur md. collect env s r = Inr (cur, md) \<and> self_previously_tracked s' = Some cur
      \<and> md = map_of (rev (batch_entries sts))
      \<and> cur = {c. \<exists>f. (c, f) \<in> set (batch_entries sts) \<and> passes_filters env s f}
      \<and> (distinct (map fst (batch_entries sts)) \<longrightarrow>
           cur = {c. \<exists>f. md c = Some f \<and> passes_filters env s f})"
proof -
  from assms(1) obtain cur md where c: "collect env s r = Inr (cur, md)"
    and s': "s' = s\<lparr>self_state := int (card cur), self_previously_tracked := Some cur\<rparr>"
    unfolding update_Returns by blast
  from c have "process_states env s sts ({}, Map.empty) = Inr (cur, md)"
    by (simp add: collect_batch [OF assms(2)])
  from process_states_entries [OF this]
  have T: "cur = {c. \<exists>f. (c, f) \<in> set (batch_entries sts) \<and> passes_filters env s f}"
    and M: "md = map_of (rev (batch_entries sts))" by simp_all
  have "cur = {c. \<exists>f. md c = Some f \<and> passes_filters env s f}"
    if "distinct (map fst (batch_entries sts))"
    using T by (simp add: M map_of_rev_distinct [OF that])
  with c s' T M show ?thesis by simp
qed

text \<open>The theorem at a batch of one airborne and one grounded aircraft.\<close>

theorem tracked_set_characterised_witness:
  "update example_env (Returns (states_response mixed_batch)) example_sensor =
     Inr (example_sensor\<lparr>self_state := 1, self_previously_tracked := Some {''AAL1''}\<rparr>, [])
   \<and> parse_states (states_response mixed_batch) = Parsed (JArr mixed_batch)
   \<and> (\<exists>cur md. collect example_env example_sensor (states_response mixed_batch) = Inr (cur, md)
        \<and> self_previously_tracked
            (example_sensor\<lparr>self_state := 1, self_previously_tracked := Some {''AAL1''}\<rparr>)
            = Some cur
        \<and> md = map_of (rev (batch_entries mixed_batch))
        \<and> cur = {c. \<exists>f. (c, f) \<in> set (batch_entries mixed_batch)
                     \<and> passes_filters example_env example_sensor f}
        \<and> (distinct (map fst (batch_entries mixed_batch)) \<longrightarrow>
             cur = {c. \<exists>f. md c = Some f \<and> passes_filters example_env example_sensor f}))"
proof -
  have c: "collect example_env (example_sensor :: string set sensor)
             (states_response mixed_batch) =
           Inr ({''AAL1''}, [''AAL1'' \<mapsto> example_flight ''AAL1'' (JNum 500) False,
                             ''BAW2'' \<mapsto> example_flight ''BAW2  '' (JNum 500) True])"
    by (simp add: example_simps mixed_batch_def)
  have u: "update example_env (Returns (states_response mixed_batch)) example_sensor =
     Inr (example_sensor\<lparr>self_state := 1, self_previously_tracked := Some {''AAL1''}\<rparr>, [])"
    by (simp add: update_def c boundary_events_def) (simp add: example_sensor_def)
  have p: "parse_states (states_response mixed_batch) = Parsed (JArr mixed_batch)"
    by (rule parse_states_response)
  from tracked_set_characterised [OF u p] u p show ?thesis by (simp only: simp_thms)
qed

section \<open>Malformed records\<close>

text \<open>C4 as stated fails. A record of one field has no callsign and line 215 raises
  \<^verbatim>\<open>KeyError\<close>; an altitude that is a string makes the comparison of line 237
  raise \<^verbatim>\<open>TypeError\<close>; a callsign that is null has no \<^verbatim>\<open>strip\<close> and line 215
  raises \<^verbatim>\<open>AttributeError\<close>. Each exception leaves \<^verbatim>\<open>update\<close>.\<close>

theorem malformed_record_counterexample:
  "update example_env (Returns (states_response [JArr [JStr ''abc123'']])) example_sensor
     = Inl KeyError
   \<and> update example_env
        (Returns (states_response [example_state ''AAL1'' (JStr ''high'') False])) example_sensor
     = Inl TypeError
   \<and> update example_env (Returns (states_response [JArr [JStr ''abc123'', JNull]])) example_sensor
     = Inl AttributeError"
proof -
  have d: "decode (JArr [JStr ''abc123'']) = Inl KeyError"
    by (simp add: decode_def OPENSKY_API_FIELDS_def)
  have 1: "update example_env (Returns (states_response [JArr [JStr ''abc123'']])) example_sensor
     = Inl KeyError"
    by (simp add: update_def collect_def parse_states_response process_state_def d)
  have t: "tracks example_env (example_sensor :: string set sensor)
             (example_flight ''AAL1'' (JStr ''high'') False) = Inl TypeError"
    by (simp add: tracks_def example_flight_fields example_env_def example_distance_def
        example_sensor_def Let_def)
  have 2: "update example_env
        (Returns (states_response [example_state ''AAL1'' (JStr ''high'') False])) example_sensor
     = Inl TypeError"
    by (simp add: update_def collect_def parse_states_response process_state_def
        decode_example strip_examples t)
  have n: "decode (JArr [JStr ''abc123'', JNull]) = Inl AttributeError"
    by (simp add: decode_def OPENSKY_API_FIELDS_def)
  have 3: "update example_env (Returns (states_response [JArr [JStr ''abc123'', JNull]]))
             example_sensor = Inl AttributeError"
    by (simp add: update_def collect_def parse_states_response process_state_def n)
  from 1 2 3 show ?thesis by (simp only: simp_thms)
qed

text \<open>A batch of tolerated records is processed to the end, given a distance function
  that returns on numbers.\<close>

lemma tolerated_completes:
  assumes dist: "\<And>la lo. \<exists>d. util_distance env (self_latitude s) (self_longitude s)
                                   (JNum la) (JNum lo) = Inr d"
    and "parse_states r = Parsed (JArr sts)"
    and "\<forall>st\<in>set sts. tolerated st"
  shows "\<exists>s' evs cur md.
           update env (Returns r) s = Inr (s', evs) \<and> collect env s r = Inr (cur, md)
         \<and> self_previously_tracked s' = Some cur
         \<and> (\<forall>c\<in>cur. \<exists>f. (c, f) \<in> set (batch_entries sts) \<and> passes_filters env s f)
         \<and> (\<forall>vals cs. JArr vals \<in> set sts \<and> field vals 1 = JStr cs \<and> strip cs \<noteq> [] \<longrightarrow>
               (strip cs, map_of (zip OPENSKY_API_FIELDS vals)) \<in> set (batch_entries sts)
               \<and> strip cs \<in> dom md)"
proof -
  from process_states_tolerated [of env s sts "({}, Map.empty)", OF dist assms(3)]
  obtain cur md where p: "process_states env s sts ({}, Map.empty) = Inr (cur, md)"
    by (metis surj_pair)
  then have c: "collect env s r = Inr (cur, md)"
    by (simp add: collect_batch [OF assms(2)])
  from process_states_entries [OF p]
  have cur: "cur = {c. \<exists>f. (c, f) \<in> set (batch_entries sts) \<and> passes_filters env s f}"
    and md: "md = map_of (rev (batch_entries sts))" by simp_all
  have dom: "dom md = fst ` set (batch_entries sts)"
    unfolding md by (simp add: dom_map_of_conv_image_fst)
  have rec: "(strip cs, map_of (zip OPENSKY_API_FIELDS vals)) \<in> set (batch_entries sts)
               \<and> strip cs \<in> dom md"
    if "JArr vals \<in> set sts" "field vals 1 = JStr cs" "strip cs \<noteq> []" for vals cs
  proof -
    from that(2) have "1 < length vals" "vals ! 1 = JStr cs"
      by (auto simp: field_def split: if_splits)
    then have "decode (JArr vals) = Inr (strip cs, map_of (zip OPENSKY_API_FIELDS vals))"
      by (simp add: decode_def flight_fields(1))
    from entry_of_record [OF that(1) this that(3)] show ?thesis
      unfolding dom by force
  qed
  let ?s' = "s\<lparr>self_state := int (card cur), self_previously_tracked := Some cur\<rparr>"
  have u: "update env (Returns r) s =
             Inr (?s', boundary_events env s (self_previously_tracked s) cur md)"
    by (simp add: update_def c)
  have sel: "self_previously_tracked ?s' = Some cur" by simp
  have all: "\<forall>c\<in>cur. \<exists>f. (c, f) \<in> set (batch_entries sts) \<and> passes_filters env s f"
    unfolding cur by simp
  from u c sel all rec show ?thesis by blast
qed

text \<open>C4, amended, for a batch that is a list \<open>sts\<close>. First: let every record be a
  list of at least two fields whose callsign is a string and whose longitude, latitude
  and altitude are numbers or null (absent fields of a short record counting as null),
  and let the distance function return on numbers. Then the update completes; a callsign
  is tracked only through a record that passes the filter, hence one with longitude,
  latitude and altitude present; and every record with a callsign that is not blank is
  recorded in the metadata, as the dict of the fields it has. Second: a list record
  raises in the loop exactly when \<open>abort_error\<close> names an exception for it, and that
  is the exception raised: \<^verbatim>\<open>KeyError\<close> for fewer than two fields,
  \<^verbatim>\<open>AttributeError\<close> for a callsign that is not a string, and for a record with a
  callsign that is not blank, position present and not on the ground, what the distance
  function raises or, within the radius, \<^verbatim>\<open>TypeError\<close> for an altitude that is a
  string, a list or a dict. Third: a batch that holds such a record makes the whole
  update raise, so that nothing is assigned and nothing is fired.\<close>

theorem malformed_record_handling:
  assumes "parse_states r = Parsed (JArr sts)"
  shows "((\<forall>la lo. \<exists>d. util_distance env (self_latitude s) (self_longitude s)
                          (JNum la) (JNum lo) = Inr d)
          \<and> (\<forall>st\<in>set sts. tolerated st) \<longrightarrow>
          (\<exists>s' evs cur md.
             update env (Returns r) s = Inr (s', evs) \<and> collect env s r = Inr (cur, md)
           \<and> self_previously_tracked s' = Some cur
           \<and> (\<forall>c\<in>cur. \<exists>f. (c, f) \<in> set (batch_entries sts) \<and> passes_filters env s f)
           \<and> (\<forall>vals cs. JArr vals \<in> set sts \<and> field vals 1 = JStr cs \<and> strip cs \<noteq> [] \<longrightarrow>
                 (strip cs, map_of (zip OPENSKY_API_FIELDS vals)) \<in> set (batch_entries sts)
                 \<and> strip cs \<in> dom md)))
       \<and> (process_state env s (JArr vals) acc = Inl e \<longleftrightarrow> abort_error env s vals = Some e)
       \<and> (JArr vals \<in> set sts \<and> abort_error env s vals = Some e \<longrightarrow>
            (\<exists>e'. update env (Returns r) s = Inl e'))"
proof (intro conjI impI)
  assume a: "(\<forall>la lo. \<exists>d. util_distance env (self_latitude s) (self_longitude s)
                          (JNum la) (JNum lo) = Inr d) \<and> (\<forall>st\<in>set sts. tolerated st)"
  then have "\<And>la lo. \<exists>d. util_distance env (self_latitude s) (self_longitude s)
                          (JNum la) (JNum lo) = Inr d" by blast
  from tolerated_completes [OF this assms] a
  show "\<exists>s' evs cur md.
             update env (Returns r) s = Inr (s', evs) \<and> collect env s r = Inr (cur, md)
           \<and> self_previously_tracked s' = Some cur
           \<and> (\<forall>c\<in>cur. \<exists>f. (c, f) \<in> set (batch_entries sts) \<and> passes_filters env s f)
           \<and> (\<forall>vals cs. JArr vals \<in> set sts \<and> field vals 1 = JStr cs \<and> strip cs \<noteq> [] \<longrightarrow>
                 (strip cs, map_of (zip OPENSKY_API_FIELDS vals)) \<in> set (batch_entries sts)
                 \<and> strip cs \<in> dom md)"
    by blast
next
  show "process_state env s (JArr vals) acc = Inl e \<longleftrightarrow> abort_error env s vals = Some e"
    by (rule process_state_abort)
next
  assume "JArr vals \<in> set sts \<and> abort_error env s vals = Some e"
  then show "\<exists>e'. update env (Returns r) s = Inl e'"
    using batch_aborts [OF assms] by blast
qed

text \<open>The theorem twice: at a batch whose first record has two fields, where the update
  completes with the short record in the metadata and not in the tracked set; and at a
  batch whose second record has a null callsign, where the update raises.\<close>

theorem malformed_record_handling_witness:
  "parse_states (states_response short_batch) = Parsed (JArr short_batch)
   \<and> tolerated (JArr [JStr ''abc123'', JStr ''AAL1''])
   \<and> tolerated (example_state ''BAW2  '' (JNum 500) False)
   \<and> (\<exists>s' evs cur md.
         update example_env (Returns (states_response short_batch)) example_sensor = Inr (s', evs)
       \<and> collect example_env example_sensor (states_response short_batch) = Inr (cur, md)
       \<and> self_previously_tracked s' = Some cur
       \<and> (\<forall>c\<in>cur. \<exists>f. (c, f) \<in> set (batch_entries short_batch)
                        \<and> passes_filters example_env example_sensor f)
       \<and> (\<forall>vals cs. JArr vals \<in> set short_batch \<and> field vals 1 = JStr cs \<and> strip cs \<noteq> [] \<longrightarrow>
             (strip cs, map_of (zip OPENSKY_API_FIELDS vals)) \<in> set (batch_entries short_batch)
             \<and> strip cs \<in> dom md))
   \<and> collect example_env example_sensor (states_response short_batch) =
       Inr ({''BAW2''},
            [''AAL1'' \<mapsto> map_of (zip OPENSKY_API_FIELDS [JStr ''abc123'', JStr ''AAL1'']),
             ''BAW2'' \<mapsto> example_flight ''BAW2  '' (JNum 500) False])
   \<and> abort_error example_env example_sensor [JStr ''abc123'', JNull] = Some AttributeError
   \<and> process_state example_env example_sensor (JArr [JStr ''abc123'', JNull]) ({}, Map.empty)
       = Inl AttributeError
   \<and> (\<exists>e'. update example_env
              (Returns (states_response
                 [example_state ''BAW2  '' (JNum 500) False, JArr [JStr ''abc123'', JNull]]))
              example_sensor = Inl e')"
proof -
  have p: "parse_states (states_response short_batch) = Parsed (JArr short_batch)"
    by (rule parse_states_response)
  have t1: "tolerated (JArr [JStr ''abc123'', JStr ''AAL1''])"
    by (simp add: tolerated_def field_def)
  have t2: "tolerated (example_state ''BAW2  '' (JNum 500) False)"
    by (simp add: tolerated_def field_def example_state_def)
  from t1 t2 have t: "\<forall>st\<in>set short_batch. tolerated st"
    by (simp add: short_batch_def)
  have d: "decode (JArr [JStr ''abc123'', JStr ''AAL1'']) =
             Inr (''AAL1'', map_of (zip OPENSKY_API_FIELDS [JStr ''abc123'', JStr ''AAL1'']))"
    by (simp add: decode_def flight_fields(1) strip_examples)
  have k: "tracks example_env example_sensor
             (map_of (zip OPENSKY_API_FIELDS [JStr ''abc123'', JStr ''AAL1''])) = Inr False"
    by (simp add: tracks_def flight_fields field_def Let_def)
  have c: "collect example_env example_sensor (states_response short_batch) =
       Inr ({''BAW2''},
            [''AAL1'' \<mapsto> map_of (zip OPENSKY_API_FIELDS [JStr ''abc123'', JStr ''AAL1'']),
             ''BAW2'' \<mapsto> example_flight ''BAW2  '' (JNum 500) False])"
    by (simp add: collect_def parse_states_response short_batch_def process_state_def d k
        decode_example strip_examples tracks_at_example example_sensor_fields)
  have dist: "\<forall>la lo. \<exists>d. util_distance example_env (self_latitude example_sensor)
                 (self_longitude example_sensor) (JNum la) (JNum lo) = Inr d"
    by (simp add: example_distance_total)
  note h1 = malformed_record_handling [OF p, of example_env example_sensor]
  from h1 dist t have ok: "\<exists>s' evs cur md.
         update example_env (Returns (states_response short_batch)) example_sensor = Inr (s', evs)
       \<and> collect example_env example_sensor (states_response short_batch) = Inr (cur, md)
       \<and> self_previously_tracked s' = Some cur
       \<and> (\<forall>c\<in>cur. \<exists>f. (c, f) \<in> set (batch_entries short_batch)
                        \<and> passes_filters example_env example_sensor f)
       \<and> (\<forall>vals cs. JArr vals \<in> set short_batch \<and> field vals 1 = JStr cs \<and> strip cs \<noteq> [] \<longrightarrow>
             (strip cs, map_of (zip OPENSKY_API_FIELDS vals)) \<in> set (batch_entries short_batch)
             \<and> strip cs \<in> dom md)"
    by blast
  let ?bad = "[example_state ''BAW2  '' (JNum 500) False, JArr [JStr ''abc123'', JNull]]"
  have p2: "parse_states (states_response ?bad) = Parsed (JArr ?bad)"
    by (rule parse_states_response)
  have ab: "abort_error example_env example_sensor [JStr ''abc123'', JNull]
              = Some AttributeError"
    by (simp add: abort_error_def field_def)
  have m: "JArr [JStr ''abc123'', JNull] \<in> set ?bad" by simp
  note h2 = malformed_record_handling [OF p2, of example_env example_sensor
      "[JStr ''abc123'', JNull]" "({}, Map.empty)" AttributeError]
  from h2 ab have ps: "process_state example_env example_sensor (JArr [JStr ''abc123'', JNull])
                         ({}, Map.empty) = Inl AttributeError"
    by blast
  from h2 ab m have up: "\<exists>e'. update example_env (Returns (states_response ?bad)) example_sensor
                            = Inl e'"
    by blast
  from p t1 t2 ok c ab ps up show ?thesis by (simp only: simp_thms)
qed

section \<open>Entries and exits\<close>

text \<open>C5. When \<^verbatim>\<open>_previously_tracked\<close> is set, the events of an update are the
  entry events followed by the exit events; the callsigns of the entry events are those
  of the current set less the previous one, the callsigns of the exit events those of
  the previous set less the current one, and no callsign occurs twice in the whole
  sequence. This holds for every order in which the two sets are iterated.\<close>

theorem entries_before_exits:
  assumes "update env f s = Inr (s', evs)"
    and "self_previously_tracked s = Some prev"
    and "finite prev"
    and "enumerates (set_iter env)"
  shows "\<exists>cur entries exits.
           self_previously_tracked s' = Some cur \<and> evs = entries @ exits
         \<and> (\<forall>e\<in>set entries. event_type e = EVENT_OPENSKY_ENTRY)
         \<and> (\<forall>e\<in>set exits. event_type e = EVENT_OPENSKY_EXIT)
         \<and> set (map ev_callsign entries) = cur - prev
         \<and> set (map ev_callsign exits) = prev - cur
         \<and> distinct (map ev_callsign evs)"
proof -
  from assms(1) obtain r where f: "f = Returns r"
    by (cases f) (simp_all add: update_def)
  from assms(1) obtain cur md where c: "collect env s r = Inr (cur, md)"
    and s': "s' = s\<lparr>self_state := int (card cur), self_previously_tracked := Some cur\<rparr>"
    and evs: "evs = boundary_events env s (self_previously_tracked s) cur md"
    unfolding f update_Returns by blast
  let ?entries = "handle_boundary s (set_iter env (cur - prev)) EVENT_OPENSKY_ENTRY md"
  let ?exits = "handle_boundary s (set_iter env (prev - cur)) EVENT_OPENSKY_EXIT md"
  have fin: "finite cur" using collect_finite_dom [OF c] by simp
  have en: "set (set_iter env (cur - prev)) = cur - prev" "distinct (set_iter env (cur - prev))"
    using enumeratesD [OF assms(4), of "cur - prev"] fin by simp_all
  have ex: "set (set_iter env (prev - cur)) = prev - cur" "distinct (set_iter env (prev - cur))"
    using enumeratesD [OF assms(4), of "prev - cur"] assms(3) by simp_all
  have e: "evs = ?entries @ ?exits"
    by (simp add: evs assms(2) boundary_events_def Let_def)
  have d: "distinct (map ev_callsign evs)"
    unfolding e using en ex by (auto simp: handle_boundary_callsigns)
  have "self_previously_tracked s' = Some cur" by (simp add: s')
  moreover have "\<forall>e\<in>set ?entries. event_type e = EVENT_OPENSKY_ENTRY"
    by (blast dest: handle_boundary_type)
  moreover have "\<forall>e\<in>set ?exits. event_type e = EVENT_OPENSKY_EXIT"
    by (blast dest: handle_boundary_type)
  moreover have "set (map ev_callsign ?entries) = cur - prev"
    by (simp only: handle_boundary_callsigns en)
  moreover have "set (map ev_callsign ?exits) = prev - cur"
    by (simp only: handle_boundary_callsigns ex)
  ultimately show ?thesis using e d by blast
qed

text \<open>The theorem at previous set \<open>{AAL1, BAW2}\<close> and current set
  \<open>{BAW2, CCA3}\<close>: one entry event for \<open>CCA3\<close>, then one exit event for
  \<open>AAL1\<close>, and a count of 2.\<close>

theorem entries_before_exits_witness:
  "update example_env (Returns (states_response airborne_batch))
     (example_sensor\<lparr>self_state := 2, self_previously_tracked := Some {''AAL1'', ''BAW2''}\<rparr>) =
     Inr (example_sensor\<lparr>self_state := 2, self_previously_tracked := Some {''BAW2'', ''CCA3''}\<rparr>,
          [\<lparr>event_type = EVENT_OPENSKY_ENTRY, ev_callsign = ''CCA3'', ev_altitude = JNum 900,
            ev_sensor = ''opensky'', ev_longitude = JNum 0, ev_latitude = JNum 0,
            ev_icao24 = JStr ''abc123''\<rparr>,
           \<lparr>event_type = EVENT_OPENSKY_EXIT, ev_callsign = ''AAL1'', ev_altitude = JNum 0,
            ev_sensor = ''opensky'', ev_longitude = JNull, ev_latitude = JNull,
            ev_icao24 = JNull\<rparr>])
   \<and> finite {''AAL1'', ''BAW2''}
   \<and> (\<exists>cur entries exits.
         self_previously_tracked
           (example_sensor\<lparr>self_state := 2, self_previously_tracked := Some {''BAW2'', ''CCA3''}\<rparr>)
           = Some cur
       \<and> [\<lparr>event_type = EVENT_OPENSKY_ENTRY, ev_callsign = ''CCA3'', ev_altitude = JNum 900,
            ev_sensor = ''opensky'', ev_longitude = JNum 0, ev_latitude = JNum 0,
            ev_icao24 = JStr ''abc123''\<rparr>,
           \<lparr>event_type = EVENT_OPENSKY_EXIT, ev_callsign = ''AAL1'', ev_altitude = JNum 0,
            ev_sensor = ''opensky'', ev_longitude = JNull, ev_latitude = JNull,
            ev_icao24 = JNull\<rparr>] = entries @ exits
       \<and> (\<forall>e\<in>set entries. event_type e = EVENT_OPENSKY_ENTRY)
       \<and> (\<forall>e\<in>set exits. event_type e = EVENT_OPENSKY_EXIT)
       \<and> set (map ev_callsign entries) = cur - {''AAL1'', ''BAW2''}
       \<and> set (map ev_callsign exits) = {''AAL1'', ''BAW2''} - cur
       \<and> distinct (map ev_callsign
            [\<lparr>event_type = EVENT_OPENSKY_ENTRY, ev_callsign = ''CCA3'', ev_altitude = JNum 900,
              ev_sensor = ''opensky'', ev_longitude = JNum 0, ev_latitude = JNum 0,
              ev_icao24 = JStr ''abc123''\<rparr>,
             \<lparr>event_type = EVENT_OPENSKY_EXIT, ev_callsign = ''AAL1'', ev_altitude = JNum 0,
              ev_sensor = ''opensky'', ev_longitude = JNull, ev_latitude = JNull,
              ev_icao24 = JNull\<rparr>]))"
proof -
  let ?s = "example_sensor\<lparr>self_state := 2, self_previously_tracked := Some {''AAL1'', ''BAW2''}\<rparr>"
  have c: "collect example_env ?s (states_response airborne_batch) =
     Inr ({''BAW2'', ''CCA3''},
          [''BAW2'' \<mapsto> example_flight ''BAW2  '' (JNum 500) False,
           ''CCA3'' \<mapsto> example_flight ''CCA3'' (JNum 900) False])"
    by (rule collect_airborne) (simp_all add: example_sensor_def)
  have d: "{''BAW2'', ''CCA3''} - {''AAL1'', ''BAW2''} = {''CCA3''}"
    "{''AAL1'', ''BAW2''} - {''BAW2'', ''CCA3''} = {''AAL1''}" by auto
  have u: "update example_env (Returns (states_response airborne_batch)) ?s =
     Inr (example_sensor\<lparr>self_state := 2, self_previously_tracked := Some {''BAW2'', ''CCA3''}\<rparr>,
          [\<lparr>event_type = EVENT_OPENSKY_ENTRY, ev_callsign = ''CCA3'', ev_altitude = JNum 900,
            ev_sensor = ''opensky'', ev_longitude = JNum 0, ev_latitude = JNum 0,
            ev_icao24 = JStr ''abc123''\<rparr>,
           \<lparr>event_type = EVENT_OPENSKY_EXIT, ev_callsign = ''AAL1'', ev_altitude = JNum 0,
            ev_sensor = ''opensky'', ev_longitude = JNull, ev_latitude = JNull,
            ev_icao24 = JNull\<rparr>])"
    by (simp add: update_def c boundary_events_def Let_def d)
       (simp add: example_env_def handle_boundary_def boundary_event_def example_flight_fields
          example_sensor_def)
  have p: "self_previously_tracked ?s = Some {''AAL1'', ''BAW2''}" by simp
  have f: "finite {''AAL1'', ''BAW2''}" by simp
  from entries_before_exits [OF u p f enumerates_example] u f
  show ?thesis by (simp only: simp_thms)
qed

section \<open>The first poll\<close>

text \<open>A first batch of qualifying records with distinct callsigns: no event, and the
  count is the number of records.\<close>

lemma first_poll_count:
  assumes "self_previously_tracked s = None"
    and "parse_states r = Parsed (JArr sts)"
    and "\<forall>st\<in>set sts. qualifies env s st"
    and "distinct (map fst (batch_entries sts))"
  shows "\<exists>s'. update env (Returns r) s = Inr (s', [])
           \<and> native_value s' = int (length sts)
           \<and> self_previously_tracked s' = Some (set (map fst (batch_entries sts)))"
proof -
  from process_states_qualify [OF assms(3), of "{}" Map.empty]
  have p: "process_states env s sts ({}, Map.empty) =
             Inr (fst ` set (batch_entries sts), map_of (rev (batch_entries sts)))"
    and l: "length (batch_entries sts) = length sts" by simp_all
  have "card (fst ` set (batch_entries sts)) = length sts"
    using distinct_card [OF assms(4)] l by simp
  then show ?thesis
    by (simp add: update_def collect_batch [OF assms(2)] p boundary_events_def assms(1)
        native_value_def)
qed

text \<open>C7. On the first update, with \<^verbatim>\<open>_previously_tracked\<close> unset, no event is
  fired, whatever the response; and for a batch of qualifying records with distinct
  callsigns the update completes and the count is the number of records.\<close>

theorem first_poll_baseline:
  assumes "self_previously_tracked s = None"
  shows "(update env f s = Inr (s', evs) \<longrightarrow> evs = [])
       \<and> (parse_states r = Parsed (JArr sts) \<and> (\<forall>st\<in>set sts. qualifies env s st)
            \<and> distinct (map fst (batch_entries sts)) \<longrightarrow>
            (\<exists>s''. update env (Returns r) s = Inr (s'', [])
               \<and> native_value s'' = int (length sts)
               \<and> self_previously_tracked s'' = Some (set (map fst (batch_entries sts)))))"
proof (intro conjI impI)
  assume "update env f s = Inr (s', evs)"
  with assms show "evs = []" by (rule first_call_no_events)
next
  assume "parse_states r = Parsed (JArr sts) \<and> (\<forall>st\<in>set sts. qualifies env s st)
            \<and> distinct (map fst (batch_entries sts))"
  then show "\<exists>s''. update env (Returns r) s = Inr (s'', [])
               \<and> native_value s'' = int (length sts)
               \<and> self_previously_tracked s'' = Some (set (map fst (batch_entries sts)))"
    using first_poll_count [OF assms] by blast
qed

text \<open>The theorem at a first batch of one airborne and one grounded aircraft (no event),
  and at a first batch of two airborne aircraft (no event, count 2).\<close>

theorem first_poll_baseline_witness:
  "self_previously_tracked example_sensor = None
   \<and> update example_env (Returns (states_response mixed_batch)) example_sensor =
       Inr (example_sensor\<lparr>self_state := 1, self_previously_tracked := Some {''AAL1''}\<rparr>, [])
   \<and> parse_states (states_response airborne_batch) = Parsed (JArr airborne_batch)
   \<and> qualifies example_env example_sensor (example_state ''BAW2  '' (JNum 500) False)
   \<and> qualifies example_env example_sensor (example_state ''CCA3'' (JNum 900) False)
   \<and> distinct (map fst (batch_entries airborne_batch))
   \<and> (\<exists>s'. update example_env (Returns (states_response airborne_batch)) example_sensor
               = Inr (s', [])
          \<and> native_value s' = int (length airborne_batch)
          \<and> self_previously_tracked s' = Some (set (map fst (batch_entries airborne_batch))))
   \<and> length airborne_batch = 2
   \<and> set (map fst (batch_entries airborne_batch)) = {''BAW2'', ''CCA3''}"
proof -
  have n: "self_previously_tracked example_sensor = None"
    by (simp add: example_sensor_def)
  have c: "collect example_env example_sensor (states_response mixed_batch) =
           Inr ({''AAL1''}, [''AAL1'' \<mapsto> example_flight ''AAL1'' (JNum 500) False,
                             ''BAW2'' \<mapsto> example_flight ''BAW2  '' (JNum 500) True])"
    by (simp add: example_simps mixed_batch_def)
  have "\<exists>evs. update example_env (Returns (states_response mixed_batch)) example_sensor =
     Inr (example_sensor\<lparr>self_state := 1, self_previously_tracked := Some {''AAL1''}\<rparr>, evs)"
    by (simp add: update_def c)
  then obtain evs where u0: "update example_env (Returns (states_response mixed_batch))
      example_sensor =
     Inr (example_sensor\<lparr>self_state := 1, self_previously_tracked := Some {''AAL1''}\<rparr>, evs)"
    ..
  have p: "parse_states (states_response airborne_batch) = Parsed (JArr airborne_batch)"
    by (rule parse_states_response)
  have q1: "qualifies example_env example_sensor (example_state ''BAW2  '' (JNum 500) False)"
    and q2: "qualifies example_env example_sensor (example_state ''CCA3'' (JNum 900) False)"
    by (simp_all add: qualifies_def decode_example strip_examples passes_at_example
        example_sensor_def)
  then have q: "\<forall>st\<in>set airborne_batch. qualifies example_env example_sensor st"
    by (simp add: airborne_batch_def)
  have e: "batch_entries airborne_batch =
             [(''BAW2'', example_flight ''BAW2  '' (JNum 500) False),
              (''CCA3'', example_flight ''CCA3'' (JNum 900) False)]"
    by (simp add: batch_entries_def airborne_batch_def record_entry_example strip_examples)
  have d: "distinct (map fst (batch_entries airborne_batch))" by (simp add: e)
  have l: "length airborne_batch = 2" by (simp add: airborne_batch_def)
  have s: "set (map fst (batch_entries airborne_batch)) = {''BAW2'', ''CCA3''}" by (simp add: e)
  note h = first_poll_baseline [OF n, of example_env "Returns (states_response mixed_batch)"
      "example_sensor\<lparr>self_state := 1, self_previously_tracked := Some {''AAL1''}\<rparr>" evs
      "states_response airborne_batch" airborne_batch]
  from h u0 have "evs = []" by blast
  with u0 have u: "update example_env (Returns (states_response mixed_batch)) example_sensor =
       Inr (example_sensor\<lparr>self_state := 1, self_previously_tracked := Some {''AAL1''}\<rparr>, [])"
    by simp
  from h p q d have b: "\<exists>s'. update example_env (Returns (states_response airborne_batch))
               example_sensor = Inr (s', [])
          \<and> native_value s' = int (length airborne_batch)
          \<and> self_previously_tracked s' = Some (set (map fst (batch_entries airborne_batch)))"
    by blast
  from n u p q1 q2 d b l s show ?thesis by (simp only: simp_thms)
qed

section \<open>The altitude ceiling\<close>



section \<open>An exit without metadata\<close>

text \<open>C9. A callsign of the previous tracked set that has no entry in the metadata
  of the cycle gets exactly one event, an exit event with altitude 0 and null
  longitude, latitude and icao24.\<close>

theorem missing_metadata_exit:
  assumes "enumerates (set_iter env)"
    and "self_previously_tracked s = Some prev"
    and "finite prev"
    and "c \<in> prev"
    and "collect env s r = Inr (cur, md)"
    and "md c = None"
  shows "\<exists>s' evs. update env (Returns r) s = Inr (s', evs)
           \<and> filter (\<lambda>e. ev_callsign e = c) evs =
               [\<lparr>event_type = EVENT_OPENSKY_EXIT, ev_callsign = c, ev_altitude = JNum 0,
                 ev_sensor = self_name s, ev_longitude = JNull, ev_latitude = JNull,
                 ev_icao24 = JNull\<rparr>]"
proof -
  have fin: "finite cur" and sub: "cur \<subseteq> dom md"
    using collect_finite_dom [OF assms(5)] by simp_all
  have nc: "c \<notin> cur" using sub assms(6) by auto
  have en: "set (set_iter env (cur - prev)) = cur - prev" "distinct (set_iter env (cur - prev))"
    using enumeratesD [OF assms(1), of "cur - prev"] fin by simp_all
  have ex: "set (set_iter env (prev - cur)) = prev - cur" "distinct (set_iter env (prev - cur))"
    using enumeratesD [OF assms(1), of "prev - cur"] assms(3) by simp_all
  have 1: "filter (\<lambda>x. x = c) (set_iter env (cur - prev)) = []"
    using nc by (simp add: filter_distinct_eq [OF en(2)] en(1))
  have 2: "filter (\<lambda>x. x = c) (set_iter env (prev - cur)) = [c]"
    using nc assms(4) by (simp add: filter_distinct_eq [OF ex(2)] ex(1))
  show ?thesis
    by (simp add: update_def assms(5) assms(2) boundary_events_def Let_def
        filter_handle_boundary 1 2)
       (simp add: handle_boundary_def boundary_event_def assms(6))
qed

text \<open>The theorem at previous set \<open>{AAL1, BAW2}\<close> and a batch without
  \<open>AAL1\<close>.\<close>

theorem missing_metadata_exit_witness:
  "self_previously_tracked
     (example_sensor\<lparr>self_state := 2, self_previously_tracked := Some {''AAL1'', ''BAW2''}\<rparr>)
     = Some {''AAL1'', ''BAW2''}
   \<and> finite {''AAL1'', ''BAW2''} \<and> ''AAL1'' \<in> {''AAL1'', ''BAW2''}
   \<and> collect example_env
        (example_sensor\<lparr>self_state := 2, self_previously_tracked := Some {''AAL1'', ''BAW2''}\<rparr>)
        (states_response airborne_batch) =
      Inr ({''BAW2'', ''CCA3''},
           [''BAW2'' \<mapsto> example_flight ''BAW2  '' (JNum 500) False,
            ''CCA3'' \<mapsto> example_flight ''CCA3'' (JNum 900) False])
   \<and> [''BAW2'' \<mapsto> example_flight ''BAW2  '' (JNum 500) False,
       ''CCA3'' \<mapsto> example_flight ''CCA3'' (JNum 900) False] ''AAL1'' = None
   \<and> (\<exists>s' evs.
         update example_env (Returns (states_response airborne_batch))
           (example_sensor\<lparr>self_state := 2, self_previously_tracked := Some {''AAL1'', ''BAW2''}\<rparr>)
           = Inr (s', evs)
       \<and> filter (\<lambda>e. ev_callsign e = ''AAL1'') evs =
           [\<lparr>event_type = EVENT_OPENSKY_EXIT, ev_callsign = ''AAL1'', ev_altitude = JNum 0,
             ev_sensor = self_name
               (example_sensor\<lparr>self_state := 2,
                  self_previously_tracked := Some {''AAL1'', ''BAW2''}\<rparr>),
             ev_longitude = JNull, ev_latitude = JNull, ev_icao24 = JNull\<rparr>])"
proof -
  let ?s = "example_sensor\<lparr>self_state := 2, self_previously_tracked := Some {''AAL1'', ''BAW2''}\<rparr>"
  have p: "self_previously_tracked ?s = Some {''AAL1'', ''BAW2''}" by simp
  have f: "finite {''AAL1'', ''BAW2''}" and m: "''AAL1'' \<in> {''AAL1'', ''BAW2''}" by simp_all
  have c: "collect example_env ?s (states_response airborne_batch) =
     Inr ({''BAW2'', ''CCA3''},
          [''BAW2'' \<mapsto> example_flight ''BAW2  '' (JNum 500) False,
           ''CCA3'' \<mapsto> example_flight ''CCA3'' (JNum 900) False])"
    by (rule collect_airborne) (simp_all add: example_sensor_def)
  have n: "[''BAW2'' \<mapsto> example_flight ''BAW2  '' (JNum 500) False,
            ''CCA3'' \<mapsto> example_flight ''CCA3'' (JNum 900) False] ''AAL1'' = None"
    by simp
  from missing_metadata_exit [OF enumerates_example p f m c n] p f m c n
  show ?thesis by (simp only: simp_thms)
qed

section \<open>What an update changes\<close>

text \<open>C10. After a completed update on set objects, \<^verbatim>\<open>_previously_tracked\<close>
  refers to a set object at an address the store did not have before, so not to the
  old object; every object the store had is unchanged; the exposed value is the
  cardinality of the referenced set; and the centre, the radius, the altitude ceiling
  and the four bounding-box fields are what they were.\<close>

theorem update_obj_installs_new_set:
  assumes "update_obj env f (s, h) = Inr ((s', h'), evs)"
  shows "\<exists>a. self_previously_tracked s' = Some a \<and> a < length h'
           \<and> native_value s' = int (card (h' ! a))
           \<and> length h \<le> a
           \<and> (\<forall>p<length h. h' ! p = h ! p)
           \<and> self_latitude s' = self_latitude s \<and> self_longitude s' = self_longitude s
           \<and> self_radius s' = self_radius s \<and> self_altitude s' = self_altitude s
           \<and> self_lat_min s' = self_lat_min s \<and> self_lon_min s' = self_lon_min s
           \<and> self_lat_max s' = self_lat_max s \<and> self_lon_max s' = self_lon_max s"
proof -
  from assms obtain r where f: "f = Returns r"
    by (cases f) (simp_all add: update_obj_def)
  from assms obtain cur md where
    s': "s' = s\<lparr>self_state := int (card cur), self_previously_tracked := Some (length h)\<rparr>"
    and h': "h' = h @ [cur]"
    unfolding f update_obj_def by (auto simp: Let_def split: sum.splits)
  show ?thesis
    by (simp add: s' h' native_value_def nth_append)
qed

text \<open>The theorem at a sensor referring to the object \<open>{AAL1, BAW2}\<close> at
  address 0, with a batch that makes the tracked set \<open>{BAW2, CCA3}\<close>.\<close>

theorem update_obj_installs_new_set_witness:
  "update_obj example_env (Returns (states_response airborne_batch))
     (example_object, [{''AAL1'', ''BAW2''}]) =
     Inr ((example_object\<lparr>self_state := 2, self_previously_tracked := Some 1\<rparr>,
           [{''AAL1'', ''BAW2''}, {''BAW2'', ''CCA3''}]),
          [\<lparr>event_type = EVENT_OPENSKY_ENTRY, ev_callsign = ''CCA3'', ev_altitude = JNum 900,
            ev_sensor = ''opensky'', ev_longitude = JNum 0, ev_latitude = JNum 0,
            ev_icao24 = JStr ''abc123''\<rparr>,
           \<lparr>event_type = EVENT_OPENSKY_EXIT, ev_callsign = ''AAL1'', ev_altitude = JNum 0,
            ev_sensor = ''opensky'', ev_longitude = JNull, ev_latitude = JNull,
            ev_icao24 = JNull\<rparr>])
   \<and> (\<exists>a. self_previously_tracked
              (example_object\<lparr>self_state := 2, self_previously_tracked := Some 1\<rparr>) = Some a
          \<and> a < length [{''AAL1'', ''BAW2''}, {''BAW2'', ''CCA3''}]
          \<and> native_value (example_object\<lparr>self_state := 2, self_previously_tracked := Some 1\<rparr>)
              = int (card ([{''AAL1'', ''BAW2''}, {''BAW2'', ''CCA3''}] ! a))
          \<and> length [{''AAL1'', ''BAW2''}] \<le> a
          \<and> [{''AAL1'', ''BAW2''}, {''BAW2'', ''CCA3''}] ! 0 = [{''AAL1'', ''BAW2''}] ! 0)"
proof -
  let ?s' = "example_object\<lparr>self_state := 2, self_previously_tracked := Some 1\<rparr>"
  have c: "collect example_env example_object (states_response airborne_batch) =
     Inr ({''BAW2'', ''CCA3''},
          [''BAW2'' \<mapsto> example_flight ''BAW2  '' (JNum 500) False,
           ''CCA3'' \<mapsto> example_flight ''CCA3'' (JNum 900) False])"
    by (rule collect_airborne) (simp_all add: example_object_def)
  have d: "{''BAW2'', ''CCA3''} - {''AAL1'', ''BAW2''} = {''CCA3''}"
    "{''AAL1'', ''BAW2''} - {''BAW2'', ''CCA3''} = {''AAL1''}" by auto
  have p: "self_previously_tracked example_object = Some 0" by (simp add: example_object_def)
  have u: "update_obj example_env (Returns (states_response airborne_batch))
     (example_object, [{''AAL1'', ''BAW2''}]) =
     Inr ((?s', [{''AAL1'', ''BAW2''}, {''BAW2'', ''CCA3''}]),
          [\<lparr>event_type = EVENT_OPENSKY_ENTRY, ev_callsign = ''CCA3'', ev_altitude = JNum 900,
            ev_sensor = ''opensky'', ev_longitude = JNum 0, ev_latitude = JNum 0,
            ev_icao24 = JStr ''abc123''\<rparr>,
           \<lparr>event_type = EVENT_OPENSKY_EXIT, ev_callsign = ''AAL1'', ev_altitude = JNum 0,
            ev_sensor = ''opensky'', ev_longitude = JNull, ev_latitude = JNull,
            ev_icao24 = JNull\<rparr>])"
    by (simp add: update_obj_def c p boundary_events_def Let_def d)
       (simp add: example_env_def handle_boundary_def boundary_event_def example_flight_fields
          example_object_def)
  from update_obj_installs_new_set [OF u] obtain a where
    a: "self_previously_tracked ?s' = Some a"
       "a < length [{''AAL1'', ''BAW2''}, {''BAW2'', ''CCA3''}]"
       "native_value ?s' = int (card ([{''AAL1'', ''BAW2''}, {''BAW2'', ''CCA3''}] ! a))"
       "length [{''AAL1'', ''BAW2''}] \<le> a"
       "\<forall>p<length [{''AAL1'', ''BAW2''}].
          [{''AAL1'', ''BAW2''}, {''BAW2'', ''CCA3''}] ! p = [{''AAL1'', ''BAW2''}] ! p"
    by blast
  from a(5) have "[{''AAL1'', ''BAW2''}, {''BAW2'', ''CCA3''}] ! 0 = [{''AAL1'', ''BAW2''}] ! 0"
    by simp
  with a(1-4) u show ?thesis by blast
qed

end
